theory Spec2Isabelle
  imports Complex_Main
begin

section \<open>Data model (package model)\<close>

text \<open>
  Only the fields that the fleet command loop reads or writes are kept.  Go's \<open>int\<close>
  fields are modelled as \<open>int\<close>; the only integer arithmetic of the program is the
  coordinate subtraction of \<open>lib.Distance\<close>, where the 64-bit wrap-around is written
  out.  A \<open>time.Time\<close> is an instant on a linear clock, modelled as an \<open>int\<close>
  (nanoseconds).  A trait is represented by its \<open>Symbol\<close>, the only field of a
  \<open>WaypointTrait\<close> the program reads; a route destination likewise.
\<close>

record Agent =
  Credits :: int

record ShipCargoItem =
  item_Symbol :: string
  item_Units :: int

record ShipCargo =
  Capacity :: int
  Units :: int
  Inventory :: "ShipCargoItem list"

record Cooldown =
  Expiration :: int

record ShipFuel =
  fuel_Current :: int
  fuel_Capacity :: int

record ShipNavRoute =
  Destination :: string
  Arrival :: int

record ShipNav =
  SystemSymbol :: string
  WaypointSymbol :: string
  Route :: ShipNavRoute
  Status :: string

record Ship =
  Symbol :: string
  Role :: string
  Nav :: ShipNav
  Cargo :: ShipCargo
  Fuel :: ShipFuel

record Waypoint =
  wp_Symbol :: string
  wp_Type :: string
  wp_X :: int
  wp_Y :: int
  Traits :: "string list"

datatype error = Error string

fun message :: "error \<Rightarrow> string" where
  "message (Error m) = m"

section \<open>Package lib\<close>

text \<open>\<open>lib.Filter\<close> is \<^const>\<open>filter\<close> of the list library.\<close>

primrec Contains :: "string list \<Rightarrow> string \<Rightarrow> bool" where
  "Contains [] v = False"
| "Contains (s # elems) v = (if v = s then True else Contains elems v)"

record Coordinate =
  x :: int
  y :: int

text \<open>Subtraction of two Go \<open>int\<close>s on a 64-bit platform.\<close>

definition sub64 :: "int \<Rightarrow> int \<Rightarrow> int" where
  "sub64 a b = (a - b + 2 ^ 63) mod 2 ^ 64 - 2 ^ 63"

text \<open>
  \<open>Distance\<close> is computed by the source in \<open>float64\<close>; the model computes it in the
  reals, so the rounding of the conversion, of \<open>math.Pow\<close> and of \<open>math.Sqrt\<close> is not
  represented: for coordinates so far apart that \<open>float64\<close> rounds, the code can find
  two distances equal where the model finds one smaller.
\<close>

definition Distance :: "Coordinate \<Rightarrow> Coordinate \<Rightarrow> real" where
  "Distance c1 c2 =
     sqrt ((real_of_int (sub64 (x c1) (x c2)))\<^sup>2 + (real_of_int (sub64 (y c1) (y c2)))\<^sup>2)"

text \<open>
  \<open>NearestWaypoint\<close> stores \<open>&waypoint\<close>, the address of the variable of its
  \<open>range\<close> loop, so what it returns depends on how many such variables there are.
  The Go language version of the module (the \<open>go\<close> line of \<open>go.mod\<close>) decides that
  and is a parameter here: before Go 1.22 a \<open>range\<close> loop has one variable, assigned
  anew in every iteration (\<open>PerLoop\<close>); from Go 1.22 on every iteration has a variable
  of its own (\<open>PerIteration\<close>).  The loop variables live in an explicit store
  \<open>cells\<close>, an address being an index into it.
\<close>

datatype loopvar = PerLoop | PerIteration

record nearest_state =
  cells :: "Waypoint list"
  nearestWaypoint :: "nat option"
  nearestDistance :: real

definition range_assign :: "loopvar \<Rightarrow> Waypoint list \<Rightarrow> Waypoint \<Rightarrow> Waypoint list \<times> nat" where
  "range_assign lv cs w =
     (case lv of
        PerLoop \<Rightarrow> (if cs = [] then ([w], 0) else (cs[0 := w], 0))
      | PerIteration \<Rightarrow> (cs @ [w], length cs))"

definition coordinate_of :: "Waypoint \<Rightarrow> Coordinate" where
  "coordinate_of w = \<lparr>x = wp_X w, y = wp_Y w\<rparr>"

fun NearestWaypoint_loop ::
  "loopvar \<Rightarrow> Waypoint \<Rightarrow> Waypoint list \<Rightarrow> nearest_state \<Rightarrow> nearest_state" where
  "NearestWaypoint_loop lv currentWaypoint [] s = s"
| "NearestWaypoint_loop lv currentWaypoint (w # ws) s =
     (case range_assign lv (cells s) w of
        (cs, waypoint) \<Rightarrow>
          (let distance = Distance (coordinate_of currentWaypoint) (coordinate_of (cs ! waypoint))
           in NearestWaypoint_loop lv currentWaypoint ws
                (if nearestWaypoint s = None \<or> distance < nearestDistance s
                 then \<lparr>cells = cs, nearestWaypoint = Some waypoint, nearestDistance = distance\<rparr>
                 else s\<lparr>cells := cs\<rparr>)))"

definition NearestWaypoint :: "loopvar \<Rightarrow> Waypoint \<Rightarrow> Waypoint list \<Rightarrow> error + Waypoint" where
  "NearestWaypoint lv currentWaypoint waypoints =
     (let s = NearestWaypoint_loop lv currentWaypoint waypoints
                \<lparr>cells = [], nearestWaypoint = None, nearestDistance = 0\<rparr>
      in case nearestWaypoint s of
           None \<Rightarrow> Inl (Error ''no nearest waypoint found'')
         | Some p \<Rightarrow> Inr (cells s ! p))"


section \<open>Remote capability (package api)\<close>

text \<open>
  The remote service is an oracle: the answer to a request may depend on how many requests
  were made before it (the service has state, and other clients) and on the request's
  arguments.  A method of \<open>api.Client\<close> returns either \<open>(nil, err)\<close> or a pointer to
  the decoded data, which is the sum \<open>error + 'a\<close>.  For most methods that is all, and
  their oracle gives that sum.  Three of the methods used here do not return when the
  service answers with an error status: \<open>DockShip\<close> and \<open>GetShipCooldown\<close> set no error
  type for the reply, so that \<open>res.Error()\<close> is nil, and \<open>ListWaypoints\<close> asserts the type
  \<open>ErrorResponse\<close> where the reply holds a pointer to it; in each the type assertion
  panics.  Their oracle gives a \<open>reply\<close>: the decoded data, an error status, or no reply at
  all (a transport or decoding failure, the only failure these methods return as an
  error).  The world records the clock, the
  requests issued (each with the instant at which the client method was entered) and the
  messages written to the ship's logger (the text of each message, without its key-value
  pairs and its pictogram).  A request takes \<open>latency\<close> time, which includes the pause
  of \<open>Throttle.Wait\<close>.
\<close>

datatype request =
    SellCargo_req string string int
  | ExtractResources_req string
  | DockShip_req string
  | NavigateShip_req string string
  | ListWaypoints_req string
  | GetWaypoint_req string string
  | GetShipCooldown_req string
  | GetMyShips_req

record World =
  now :: int
  requests :: "(int \<times> request) list"
  logs :: "string list"

record SellCargoResponse =
  sold_Agent :: Agent
  sold_Cargo :: ShipCargo

record ExtractResourcesResponse =
  ext_Cooldown :: Cooldown
  ext_Cargo :: ShipCargo

record NavigateShipResponse =
  res_Fuel :: ShipFuel
  res_Nav :: ShipNav

datatype 'a reply = Reply 'a | ErrorReply string | NoReply error

text \<open>
  A method ends in one of three ways: it runs to its end (\<open>Done\<close>), it panics
  (\<open>Panic\<close>; no goroutine of the program recovers, so the process dies), or the logger's
  \<open>Fatal\<close> exits the process.
\<close>

datatype 'a exec = Done 'a World | Panic string World | Fatal string World

definition nil_dereference :: string where
  "nil_dereference = ''invalid memory address or nil pointer dereference''"

definition nil_conversion :: string where
  "nil_conversion = ''interface conversion: interface is nil, not *api.ErrorResponse''"

definition pointer_conversion :: string where
  "pointer_conversion =
     ''interface conversion: interface is *api.ErrorResponse, not api.ErrorResponse''"

record Client =
  latency :: "nat \<Rightarrow> nat"
  remote_SellCargo :: "nat \<Rightarrow> string \<Rightarrow> string \<Rightarrow> int \<Rightarrow> error + SellCargoResponse"
  remote_ExtractResources :: "nat \<Rightarrow> string \<Rightarrow> error + ExtractResourcesResponse"
  remote_DockShip :: "nat \<Rightarrow> string \<Rightarrow> ShipNav reply"
  remote_NavigateShip :: "nat \<Rightarrow> string \<Rightarrow> string \<Rightarrow> error + NavigateShipResponse"
  remote_ListWaypoints :: "nat \<Rightarrow> string \<Rightarrow> Waypoint list reply"
  remote_GetWaypoint :: "nat \<Rightarrow> string \<Rightarrow> string \<Rightarrow> error + Waypoint"
  remote_GetShipCooldown :: "nat \<Rightarrow> string \<Rightarrow> Cooldown reply"
  remote_GetMyShips :: "nat \<Rightarrow> error + Ship list"

definition logger :: "string \<Rightarrow> World \<Rightarrow> World" where
  "logger msg w = w\<lparr>logs := logs w @ [msg]\<rparr>"

definition issue :: "Client \<Rightarrow> request \<Rightarrow> World \<Rightarrow> World" where
  "issue c r w =
     w\<lparr>requests := requests w @ [(now w, r)],
       now := now w + int (latency c (length (requests w)))\<rparr>"

definition Client_SellCargo ::
  "Client \<Rightarrow> string \<Rightarrow> string \<Rightarrow> int \<Rightarrow> World \<Rightarrow> (error + SellCargoResponse) \<times> World" where
  "Client_SellCargo c shipSymbol cargoSymbol units w =
     (remote_SellCargo c (length (requests w)) shipSymbol cargoSymbol units,
      issue c (SellCargo_req shipSymbol cargoSymbol units) w)"

definition Client_ExtractResources ::
  "Client \<Rightarrow> string \<Rightarrow> World \<Rightarrow> (error + ExtractResourcesResponse) \<times> World" where
  "Client_ExtractResources c shipSymbol w =
     (remote_ExtractResources c (length (requests w)) shipSymbol,
      issue c (ExtractResources_req shipSymbol) w)"

definition Client_DockShip :: "Client \<Rightarrow> string \<Rightarrow> World \<Rightarrow> (error + ShipNav) exec" where
  "Client_DockShip c shipSymbol w =
     (case remote_DockShip c (length (requests w)) shipSymbol of
        NoReply err \<Rightarrow> Done (Inl err) (issue c (DockShip_req shipSymbol) w)
      | ErrorReply m \<Rightarrow> Panic nil_conversion (issue c (DockShip_req shipSymbol) w)
      | Reply nav \<Rightarrow> Done (Inr nav) (issue c (DockShip_req shipSymbol) w))"

definition Client_NavigateShip ::
  "Client \<Rightarrow> string \<Rightarrow> string \<Rightarrow> World \<Rightarrow> (error + NavigateShipResponse) \<times> World" where
  "Client_NavigateShip c shipSymbol waypointSymbol w =
     (remote_NavigateShip c (length (requests w)) shipSymbol waypointSymbol,
      issue c (NavigateShip_req shipSymbol waypointSymbol) w)"

definition Client_ListWaypoints ::
  "Client \<Rightarrow> string \<Rightarrow> World \<Rightarrow> (error + Waypoint list) exec" where
  "Client_ListWaypoints c systemSymbol w =
     (case remote_ListWaypoints c (length (requests w)) systemSymbol of
        NoReply err \<Rightarrow> Done (Inl err) (issue c (ListWaypoints_req systemSymbol) w)
      | ErrorReply m \<Rightarrow> Panic pointer_conversion (issue c (ListWaypoints_req systemSymbol) w)
      | Reply waypoints \<Rightarrow> Done (Inr waypoints) (issue c (ListWaypoints_req systemSymbol) w))"

definition Client_GetWaypoint ::
  "Client \<Rightarrow> string \<Rightarrow> string \<Rightarrow> World \<Rightarrow> (error + Waypoint) \<times> World" where
  "Client_GetWaypoint c systemSymbol waypointSymbol w =
     (remote_GetWaypoint c (length (requests w)) systemSymbol waypointSymbol,
      issue c (GetWaypoint_req systemSymbol waypointSymbol) w)"

definition Client_GetShipCooldown ::
  "Client \<Rightarrow> string \<Rightarrow> World \<Rightarrow> (error + Cooldown) exec" where
  "Client_GetShipCooldown c shipSymbol w =
     (case remote_GetShipCooldown c (length (requests w)) shipSymbol of
        NoReply err \<Rightarrow> Done (Inl err) (issue c (GetShipCooldown_req shipSymbol) w)
      | ErrorReply m \<Rightarrow> Panic nil_conversion (issue c (GetShipCooldown_req shipSymbol) w)
      | Reply cd \<Rightarrow> Done (Inr cd) (issue c (GetShipCooldown_req shipSymbol) w))"

definition Client_GetMyShips :: "Client \<Rightarrow> World \<Rightarrow> (error + Ship list) \<times> World" where
  "Client_GetMyShips c w = (remote_GetMyShips c (length (requests w)), issue c GetMyShips_req w)"

subsection \<open>Throttle\<close>

text \<open>
  The pause between two requests is \<open>time.Duration(float64(time.Second) /
  float64(MaxRequestsPerSecond))\<close>: a quotient of nanoseconds computed in \<open>float64\<close> and
  cut to a whole number by the conversion.  The rounding of the division never reaches the
  next whole number, so the pause is the integer quotient rounded toward zero.  (For a rate
  of 0 the quotient is infinite and Go leaves the conversion open; the value 0 that the
  definition gives there stands for nothing.)
\<close>

record Throttle =
  MaxRequestsPerSecond :: int
  LastRequestTime :: int

definition NewThrottle :: "int \<Rightarrow> int \<Rightarrow> Throttle" where
  "NewThrottle maxRequestsPerSecond clock =
     \<lparr>MaxRequestsPerSecond = maxRequestsPerSecond, LastRequestTime = clock\<rparr>"

definition timeToWait :: "int \<Rightarrow> int" where
  "timeToWait maxRequestsPerSecond =
     sgn maxRequestsPerSecond * (1000000000 div \<bar>maxRequestsPerSecond\<bar>)"

text \<open>
  \<open>Wait\<close> runs under the mutex from its first line to its last, so the calls of any
  number of goroutines happen one after the other, in the order in which they get the
  lock, and one call is a step on the throttle and the clock.  \<open>clock\<close> is the instant at
  which the call reads the time for \<open>time.Since\<close>; it sleeps when it must, the sleep
  returning at its instant; \<open>lag\<close> is the time that passes before the final
  \<open>time.Now()\<close>.
\<close>

definition Wait :: "Throttle \<Rightarrow> int \<Rightarrow> nat \<Rightarrow> Throttle" where
  "Wait t clock lag =
     (let timeSinceLastRequest = clock - LastRequestTime t;
          pause = timeToWait (MaxRequestsPerSecond t);
          woken = (if timeSinceLastRequest < pause
                   then clock + (pause - timeSinceLastRequest) else clock)
      in t\<lparr>LastRequestTime := woken + int lag\<rparr>)"

text \<open>
  A run of calls in lock order.  A call gets the lock after the call before it has
  released it, so it reads the clock some \<open>delay\<close> after the last admission (for the
  first call: after the throttle was made).  The result is the list of the instants at
  which the calls were admitted, that is, stamped into \<open>LastRequestTime\<close>.
\<close>

fun Waits :: "Throttle \<Rightarrow> (nat \<times> nat) list \<Rightarrow> int list" where
  "Waits t [] = []"
| "Waits t ((delay, lag) # calls) =
     LastRequestTime (Wait t (LastRequestTime t + int delay) lag)
       # Waits (Wait t (LastRequestTime t + int delay) lag) calls"

section \<open>ShipBot (package main)\<close>

text \<open>
  The fields \<open>ship\<close> and \<open>agent\<close> of a \<open>ShipBot\<close> are pointers that are never nil;
  \<open>cooldown\<close> is a pointer that can be nil, hence an option; \<open>priorities\<close> is a slice,
  nil being the empty list.  For a spawned action \<open>Done\<close> is the send \<open>sbCh <- *sb\<close> of
  its last line.  The two loops that can run forever take fuel and return \<open>None\<close> when it
  runs out.
\<close>

record ShipBot =
  agent :: Agent
  priorities :: "string list"
  ship :: Ship
  cooldown :: "Cooldown option"

definition NewShipBot :: "Ship \<Rightarrow> Agent \<Rightarrow> ShipBot" where
  "NewShipBot s a = \<lparr>agent = a, priorities = [], ship = s, cooldown = None\<rparr>"

text \<open>
  The two waits sleep until an instant; \<open>time.Sleep\<close> is taken to return at that
  instant, not later.
\<close>

definition WaitUntilArrival :: "ShipBot \<Rightarrow> World \<Rightarrow> World" where
  "WaitUntilArrival sb w =
     (if Arrival (Route (Nav (ship sb))) < now w
      then logger ''Not in transit. Skipping wait.'' w
      else (logger ''In transit. Waiting until arrival...'' w)
             \<lparr>now := Arrival (Route (Nav (ship sb)))\<rparr>)"

definition WaitUntilCooldown :: "ShipBot \<Rightarrow> World \<Rightarrow> unit exec" where
  "WaitUntilCooldown sb w =
     (case cooldown sb of
        None \<Rightarrow> Panic nil_dereference w
      | Some cd \<Rightarrow>
          (let w1 = logger ''Waiting until cooldown expires...'' w
           in if Expiration cd < now w1
              then Done () (logger ''Reactor ready. Skipping wait.'' w1)
              else Done () ((logger ''Reactor cooldown active. Waiting...'' w1)
                              \<lparr>now := Expiration cd\<rparr>)))"

definition IsFullOfCargo :: "ShipBot \<Rightarrow> bool" where
  "IsFullOfCargo sb \<longleftrightarrow> Units (Cargo (ship sb)) \<ge> Capacity (Cargo (ship sb))"

definition IsAtWaypointOfType :: "Client \<Rightarrow> ShipBot \<Rightarrow> string \<Rightarrow> World \<Rightarrow> bool exec" where
  "IsAtWaypointOfType c sb waypointType w =
     (case Client_GetWaypoint c (SystemSymbol (Nav (ship sb))) (WaypointSymbol (Nav (ship sb))) w of
        (Inl err, w1) \<Rightarrow> Panic nil_dereference (logger ''Error getting waypoint.'' w1)
      | (Inr waypoint, w1) \<Rightarrow> Done (wp_Type waypoint = waypointType) w1)"

definition IsAtWaypointWithTrait :: "Client \<Rightarrow> ShipBot \<Rightarrow> string \<Rightarrow> World \<Rightarrow> bool exec" where
  "IsAtWaypointWithTrait c sb traitSymbol w =
     (case Client_GetWaypoint c (SystemSymbol (Nav (ship sb))) (WaypointSymbol (Nav (ship sb))) w of
        (Inl err, w1) \<Rightarrow> Panic nil_dereference (logger ''Error getting waypoint.'' w1)
      | (Inr waypoint, w1) \<Rightarrow>
          Done (length (filter (\<lambda>t. t = traitSymbol) (Traits waypoint)) > 0) w1)"


text \<open>
  The predicate that \<open>NavigateToNearestWaypointWithTrait\<close> and \<open>FindWaypointsByTrait\<close>
  pass to \<open>lib.Filter\<close>: a loop over the traits that returns at the first match.
\<close>

primrec has_trait :: "string \<Rightarrow> string list \<Rightarrow> bool" where
  "has_trait trait [] = False"
| "has_trait trait (t # ts) = (if t = trait then True else has_trait trait ts)"

subsection \<open>The spawned actions\<close>

text \<open>
  \<open>SellCargo\<close>: the inner \<open>range\<close> loop runs over the inventory as it was when the loop
  was entered; its \<open>break\<close> leaves the inner loop only, and the outer \<open>for\<close> then tests
  the cargo again.
\<close>

fun SellCargo_range :: "Client \<Rightarrow> ShipCargoItem list \<Rightarrow> ShipBot \<Rightarrow> World \<Rightarrow> ShipBot \<times> World" where
  "SellCargo_range c [] sb w = (sb, w)"
| "SellCargo_range c (good # goods) sb w =
     (if Contains (priorities sb) (item_Symbol good) then
        (case Client_SellCargo c (Symbol (ship sb)) (item_Symbol good) (item_Units good)
                (logger ''Selling priority cargo...'' w) of
           (Inl err, w1) \<Rightarrow> (sb, logger ''Error selling cargo.'' w1)
         | (Inr res, w1) \<Rightarrow>
             SellCargo_range c goods
               (sb\<lparr>ship := (ship sb)\<lparr>Cargo := sold_Cargo res\<rparr>,
                   agent := (agent sb)\<lparr>Credits := Credits (sold_Agent res)\<rparr>\<rparr>)
               (logger ''Agent credits updated.''
                 (logger ''Cargo status updated.'' (logger ''Cargo sold.'' w1))))
      else
        (case Client_SellCargo c (Symbol (ship sb)) (item_Symbol good) (item_Units good)
                (logger ''Selling non-priority cargo...'' w) of
           (Inl err, w1) \<Rightarrow> (sb, logger ''Error selling cargo. Returning to agent...'' w1)
         | (Inr res, w1) \<Rightarrow>
             SellCargo_range c goods
               (sb\<lparr>ship := (ship sb)\<lparr>Cargo := sold_Cargo res\<rparr>,
                   agent := (agent sb)\<lparr>Credits := Credits (sold_Agent res)\<rparr>\<rparr>)
               (logger ''Agent credits updated.''
                 (logger ''Cargo status updated.'' (logger ''Cargo sold.'' w1)))))"

fun SellCargo :: "nat \<Rightarrow> Client \<Rightarrow> ShipBot \<Rightarrow> World \<Rightarrow> ShipBot exec option" where
  "SellCargo 0 c sb w = None"
| "SellCargo (Suc fuel) c sb w =
     (if Units (Cargo (ship sb)) > 0 then
        (case SellCargo_range c (Inventory (Cargo (ship sb))) sb w of
           (sb1, w1) \<Rightarrow> SellCargo fuel c sb1 w1)
      else Some (Done sb (logger ''Cargo empty. Reporting to agent...'' w)))"

fun ExtractResources :: "nat \<Rightarrow> Client \<Rightarrow> ShipBot \<Rightarrow> World \<Rightarrow> ShipBot exec option" where
  "ExtractResources 0 c sb w = None"
| "ExtractResources (Suc fuel) c sb w =
     (if \<not> IsFullOfCargo sb then
        (case WaitUntilCooldown sb w of
           Done u w1 \<Rightarrow>
             (case Client_ExtractResources c (Symbol (ship sb)) w1 of
                (Inl err, w2) \<Rightarrow>
                  Some (Done sb (logger ''Mission failed. Reporting to agent...''
                                  (logger (message err) w2)))
              | (Inr res, w2) \<Rightarrow>
                  ExtractResources fuel c
                    (sb\<lparr>ship := (ship sb)\<lparr>Cargo := ext_Cargo res\<rparr>,
                        cooldown := Some (ext_Cooldown res)\<rparr>)
                    (logger ''Cargo status updated.'' (logger ''Resources extracted.'' w2)))
         | Panic m w1 \<Rightarrow> Some (Panic m w1)
         | Fatal m w1 \<Rightarrow> Some (Fatal m w1))
      else Some (Done sb (logger ''Cargo full. Reporting to agent...'' w)))"

definition DockShip :: "Client \<Rightarrow> ShipBot \<Rightarrow> World \<Rightarrow> ShipBot exec" where
  "DockShip c sb w =
     (case Client_DockShip c (Symbol (ship sb)) (logger ''Docking ship...'' w) of
        Done (Inl err) w1 \<Rightarrow> Panic nil_dereference (logger ''Error docking ship.'' w1)
      | Done (Inr nav) w1 \<Rightarrow> Done (sb\<lparr>ship := (ship sb)\<lparr>Nav := nav\<rparr>\<rparr>) w1
      | Panic m w1 \<Rightarrow> Panic m w1
      | Fatal m w1 \<Rightarrow> Fatal m w1)"

text \<open>
  The two navigate-to-nearest actions are the same text from the lookup of the current
  waypoint on, but for one log message (\<open>announce\<close>); that tail is written once.
  \<open>[0]\<close> on an empty slice panics.
\<close>

definition navigate_to_nearest ::
  "loopvar \<Rightarrow> Client \<Rightarrow> string \<Rightarrow> Waypoint list \<Rightarrow> Waypoint list \<Rightarrow> ShipBot \<Rightarrow> World
     \<Rightarrow> ShipBot exec" where
  "navigate_to_nearest lv c announce waypoints filteredWaypoints sb w =
     (case filter (\<lambda>waypoint. wp_Symbol waypoint = WaypointSymbol (Nav (ship sb))) waypoints of
        [] \<Rightarrow> Panic ''index out of range [0] with length 0'' w
      | currentWaypoint # rest \<Rightarrow>
          (case NearestWaypoint lv currentWaypoint filteredWaypoints of
             Inl err \<Rightarrow> Done sb (logger ''Error getting nearest waypoint.'' w)
           | Inr nearest \<Rightarrow>
               (case Client_NavigateShip c (Symbol (ship sb)) (wp_Symbol nearest)
                       (logger announce w) of
                  (Inl err, w1) \<Rightarrow> Done sb (logger ''Error navigating to waypoint.'' w1)
                | (Inr res, w1) \<Rightarrow>
                    (let sb1 = sb\<lparr>ship := (ship sb)\<lparr>Fuel := res_Fuel res, Nav := res_Nav res\<rparr>\<rparr>
                     in Done sb1
                          (WaitUntilArrival sb1
                             (logger ''Navigation successful! Waiting until arrival...'' w1))))))"

definition NavigateToNearestWaypointOfType ::
  "loopvar \<Rightarrow> Client \<Rightarrow> string \<Rightarrow> ShipBot \<Rightarrow> World \<Rightarrow> ShipBot exec" where
  "NavigateToNearestWaypointOfType lv c waypointType sb w =
     (case Client_ListWaypoints c (SystemSymbol (Nav (ship sb)))
             (logger ''Navigating to nearest waypoint of type...'' w) of
        Done (Inl err) w1 \<Rightarrow> Done sb (logger ''Error getting system.'' w1)
      | Done (Inr waypoints) w1 \<Rightarrow>
          navigate_to_nearest lv c (''Navigating to nearest '' @ waypointType @ ''...'') waypoints
            (filter (\<lambda>waypoint. wp_Type waypoint = waypointType) waypoints) sb w1
      | Panic m w1 \<Rightarrow> Panic m w1
      | Fatal m w1 \<Rightarrow> Fatal m w1)"

definition NavigateToNearestWaypointWithTrait ::
  "loopvar \<Rightarrow> Client \<Rightarrow> string \<Rightarrow> ShipBot \<Rightarrow> World \<Rightarrow> ShipBot exec" where
  "NavigateToNearestWaypointWithTrait lv c trait sb w =
     (case Client_ListWaypoints c (SystemSymbol (Nav (ship sb)))
             (logger ''Navigating to nearest waypoint with trait...'' w) of
        Done (Inl err) w1 \<Rightarrow> Panic nil_dereference (logger ''Error getting waypoints.'' w1)
      | Done (Inr waypoints) w1 \<Rightarrow>
          navigate_to_nearest lv c (''Navigating to nearest waypoint with '' @ trait @ ''...'')
            waypoints
            (filter (\<lambda>waypoint. has_trait trait (Traits waypoint)) waypoints) sb w1
      | Panic m w1 \<Rightarrow> Panic m w1
      | Fatal m w1 \<Rightarrow> Fatal m w1)"

subsection \<open>Requisition protocol\<close>

definition NavigateShip :: "Client \<Rightarrow> string \<Rightarrow> ShipBot \<Rightarrow> World \<Rightarrow> ShipBot \<times> World" where
  "NavigateShip c waypointSymbol sb w =
     (if WaypointSymbol (Nav (ship sb)) = waypointSymbol \<and> Arrival (Route (Nav (ship sb))) < now w
      then (sb, logger ''Already at waypoint. Navigation skipped.'' w)
      else if now w < Arrival (Route (Nav (ship sb)))
              \<and> Destination (Route (Nav (ship sb))) = waypointSymbol
      then (sb, WaitUntilArrival sb
                  (logger ''Already traveling to waypoint. Navigation skipped.'' w))
      else
        (case Client_NavigateShip c (Symbol (ship sb)) waypointSymbol
                (if now w < Arrival (Route (Nav (ship sb))) then WaitUntilArrival sb w else w) of
           (Inl err, w1) \<Rightarrow> (sb, logger ''Error traveling to shipyard.'' w1)
         | (Inr res, w1) \<Rightarrow> (sb, w1)))"

definition FindWaypointsByTrait ::
  "Client \<Rightarrow> string \<Rightarrow> string \<Rightarrow> World \<Rightarrow> (error + Waypoint list) exec" where
  "FindWaypointsByTrait c systemSymbol trait w =
     (case Client_ListWaypoints c systemSymbol w of
        Done (Inl err) w1 \<Rightarrow> Done (Inl err) w1
      | Done (Inr waypoints) w1 \<Rightarrow>
          Done (Inr (filter (\<lambda>wp. has_trait trait (Traits wp)) waypoints)) w1
      | Panic m w1 \<Rightarrow> Panic m w1
      | Fatal m w1 \<Rightarrow> Fatal m w1)"

fun InitiateRequisitionProtocol_range ::
  "Client \<Rightarrow> Waypoint list \<Rightarrow> ShipBot \<Rightarrow> World \<Rightarrow> ShipBot \<times> World" where
  "InitiateRequisitionProtocol_range c [] sb w = (sb, w)"
| "InitiateRequisitionProtocol_range c (waypoint # waypoints) sb w =
     (case NavigateShip c (wp_Symbol waypoint) sb (logger ''Traveling to shipyard...'' w) of
        (sb1, w1) \<Rightarrow> InitiateRequisitionProtocol_range c waypoints sb1 w1)"

definition InitiateRequisitionProtocol :: "Client \<Rightarrow> ShipBot \<Rightarrow> World \<Rightarrow> ShipBot exec" where
  "InitiateRequisitionProtocol c sb w =
     (case FindWaypointsByTrait c (SystemSymbol (Nav (ship sb))) ''SHIPYARD''
             (logger ''Finding shipyards in current system...''
               (logger ''Initiating requisition protocol...'' w)) of
        Done (Inl err) w1 \<Rightarrow>
          Panic nil_dereference (logger ''Error finding shipyards in current system.'' w1)
      | Done (Inr waypoints) w1 \<Rightarrow>
          if length waypoints = 0 then Panic ''no shipyards found. Not yet handled.'' w1
          else (case InitiateRequisitionProtocol_range c waypoints sb
                       (logger ''Shipyards found.'' w1) of
                  (sb1, w2) \<Rightarrow> Done sb1 w2)
      | Panic m w1 \<Rightarrow> Panic m w1
      | Fatal m w1 \<Rightarrow> Fatal m w1)"


subsection \<open>Startup (function main)\<close>

record ContractDeliverGood =
  TradeSymbol :: string

record Contract =
  Deliver :: "ContractDeliverGood list"

fun DeterminePriorities_range :: "ContractDeliverGood list \<Rightarrow> string list \<Rightarrow> string list" where
  "DeterminePriorities_range [] ps = ps"
| "DeterminePriorities_range (good # goods) ps =
     DeterminePriorities_range goods
       (if \<not> Contains ps (TradeSymbol good) then ps @ [TradeSymbol good] else ps)"

fun DeterminePriorities_loop :: "Contract list \<Rightarrow> string list \<Rightarrow> string list" where
  "DeterminePriorities_loop [] ps = ps"
| "DeterminePriorities_loop (contract # contracts) ps =
     DeterminePriorities_loop contracts (DeterminePriorities_range (Deliver contract) ps)"

definition DeterminePriorities :: "Contract list \<Rightarrow> string list" where
  "DeterminePriorities contracts = DeterminePriorities_loop contracts []"

text \<open>
  The fan-out of \<open>main\<close>: one goroutine per ship makes a ShipBot, asks for the ship's
  cooldown and sends the ShipBot to \<open>sbCh\<close>.  The goroutines are taken in the order of
  the fleet; the result is the list of ShipBots sent, unless one of them panics.
\<close>

definition sent :: "ShipBot \<Rightarrow> ShipBot list exec \<Rightarrow> ShipBot list exec" where
  "sent sb r =
     (case r of
        Done sbs w \<Rightarrow> Done (sb # sbs) w
      | Panic m w \<Rightarrow> Panic m w
      | Fatal m w \<Rightarrow> Fatal m w)"

fun main_range :: "Client \<Rightarrow> Agent \<Rightarrow> Ship list \<Rightarrow> World \<Rightarrow> ShipBot list exec" where
  "main_range c a [] w = Done [] w"
| "main_range c a (s # ships) w =
     (case Client_GetShipCooldown c (Symbol s) (logger ''Checking reactor...'' w) of
        Done (Inl err) w1 \<Rightarrow>
          sent ((NewShipBot s a)\<lparr>cooldown := None\<rparr>)
            (main_range c a ships (logger ''Error getting ship cooldown.'' w1))
      | Done (Inr cd) w1 \<Rightarrow>
          sent ((NewShipBot s a)\<lparr>cooldown := Some cd\<rparr>) (main_range c a ships w1)
      | Panic m w1 \<Rightarrow> Panic m w1
      | Fatal m w1 \<Rightarrow> Fatal m w1)"

text \<open>
  \<open>main\<close> from the line \<open>Determine priorities\<close> on, the agent and the contracts having
  been fetched.  The priorities are computed and logged, and nothing else is done with them.
\<close>

definition main :: "Client \<Rightarrow> Agent \<Rightarrow> Contract list \<Rightarrow> World \<Rightarrow> ShipBot list exec" where
  "main c a contracts w =
     (let priorities = DeterminePriorities contracts
      in case Client_GetMyShips c (logger ''Waking fleet...'' w) of
           (Inl err, w1) \<Rightarrow> Fatal ''Failed to get ships'' w1
         | (Inr ships, w1) \<Rightarrow>
             (case ships of
                [] \<Rightarrow> main_range c a ships w1
              | s # rest \<Rightarrow>
                  (case InitiateRequisitionProtocol c (NewShipBot s a) w1 of
                     Done sb w2 \<Rightarrow> main_range c a ships w2
                   | Panic m w2 \<Rightarrow> Panic m w2
                   | Fatal m w2 \<Rightarrow> Fatal m w2)))"

subsection \<open>The command loop\<close>

text \<open>
  One turn of the command loop for a ShipBot received from \<open>sbCh\<close>: the role switch,
  whose \<open>EXCAVATOR\<close> case is five \<open>if\<close> statements in a row, each of which may start a
  goroutine.  \<open>&&\<close> evaluates its right operand, here a remote call, only when the left
  one is true.
\<close>

datatype spawned =
    go_SellCargo
  | go_DockShip
  | go_NavigateToNearestWaypointWithTrait string
  | go_ExtractResources
  | go_NavigateToNearestWaypointOfType string

definition and_also :: "bool \<Rightarrow> (World \<Rightarrow> bool exec) \<Rightarrow> World \<Rightarrow> bool exec" where
  "and_also b f w = (if b then f w else Done False w)"

definition and_pure :: "bool exec \<Rightarrow> bool \<Rightarrow> bool exec" where
  "and_pure r b = (case r of Done a w \<Rightarrow> Done (a \<and> b) w | Panic m w \<Rightarrow> Panic m w | Fatal m w \<Rightarrow> Fatal m w)"

definition not_exec :: "bool exec \<Rightarrow> bool exec" where
  "not_exec r = (case r of Done a w \<Rightarrow> Done (\<not> a) w | Panic m w \<Rightarrow> Panic m w | Fatal m w \<Rightarrow> Fatal m w)"

text \<open>The five statements: the condition of each \<open>if\<close> and the goroutine it starts.\<close>

type_synonym statement = "(ShipBot \<Rightarrow> World \<Rightarrow> bool exec) \<times> spawned"

definition EXCAVATOR_statements :: "Client \<Rightarrow> statement list" where
  "EXCAVATOR_statements c =
     [(\<lambda>sb w. and_pure
                (and_also (IsFullOfCargo sb) (IsAtWaypointWithTrait c sb ''MARKETPLACE'') w)
                (Status (Nav (ship sb)) = ''DOCKED''),
       go_SellCargo),
      (\<lambda>sb w. and_pure
                (and_also (IsFullOfCargo sb) (IsAtWaypointWithTrait c sb ''MARKETPLACE'') w)
                (Status (Nav (ship sb)) \<noteq> ''DOCKED''),
       go_DockShip),
      (\<lambda>sb w. and_also (IsFullOfCargo sb)
                (\<lambda>w. not_exec (IsAtWaypointWithTrait c sb ''MARKETPLACE'' w)) w,
       go_NavigateToNearestWaypointWithTrait ''MARKETPLACE''),
      (\<lambda>sb w. and_also (\<not> IsFullOfCargo sb) (IsAtWaypointOfType c sb ''ASTEROID_FIELD'') w,
       go_ExtractResources),
      (\<lambda>sb w. and_also (\<not> IsFullOfCargo sb)
                (\<lambda>w. not_exec (IsAtWaypointOfType c sb ''ASTEROID_FIELD'' w)) w,
       go_NavigateToNearestWaypointOfType ''ASTEROID_FIELD'')]"

text \<open>
  The methods have pointer receivers, so \<open>go sb.SellCargo(sbCh)\<close> hands the goroutine the
  address of the very variable \<open>sb\<close> that the later \<open>if\<close> statements of the turn read:
  the turn and the goroutines it has started share one ShipBot, and what a goroutine has
  written by the time a later condition is evaluated is up to the scheduler.  The schedule
  is a parameter: \<open>sched k\<close> says whether, once statement \<open>k\<close> (counted from 0) is done,
  the goroutines started so far in this turn and not yet run are run, in the order they
  were started, each up to its send on \<open>sbCh\<close> (which blocks until the turn is over),
  before the turn goes on.  A goroutine that panics takes the process with it.
\<close>

definition run_goroutine ::
  "loopvar \<Rightarrow> nat \<Rightarrow> Client \<Rightarrow> spawned \<Rightarrow> ShipBot \<Rightarrow> World \<Rightarrow> ShipBot exec option" where
  "run_goroutine lv fuel c g sb w =
     (case g of
        go_SellCargo \<Rightarrow> SellCargo fuel c sb w
      | go_DockShip \<Rightarrow> Some (DockShip c sb w)
      | go_NavigateToNearestWaypointWithTrait trait \<Rightarrow>
          Some (NavigateToNearestWaypointWithTrait lv c trait sb w)
      | go_ExtractResources \<Rightarrow> ExtractResources fuel c sb w
      | go_NavigateToNearestWaypointOfType waypointType \<Rightarrow>
          Some (NavigateToNearestWaypointOfType lv c waypointType sb w))"

fun run_pending ::
  "loopvar \<Rightarrow> nat \<Rightarrow> Client \<Rightarrow> spawned list \<Rightarrow> ShipBot \<Rightarrow> World \<Rightarrow> ShipBot exec option" where
  "run_pending lv fuel c [] sb w = Some (Done sb w)"
| "run_pending lv fuel c (g # gs) sb w =
     (case run_goroutine lv fuel c g sb w of
        None \<Rightarrow> None
      | Some (Done sb1 w1) \<Rightarrow> run_pending lv fuel c gs sb1 w1
      | Some (Panic m w1) \<Rightarrow> Some (Panic m w1)
      | Some (Fatal m w1) \<Rightarrow> Some (Fatal m w1))"

text \<open>
  The statements in order: \<open>started\<close> are the goroutines started so far in the turn,
  \<open>pending\<close> those of them that have not run yet.  The result is the list of goroutines the
  turn has started.
\<close>

fun run_statements ::
  "loopvar \<Rightarrow> nat \<Rightarrow> (nat \<Rightarrow> bool) \<Rightarrow> Client \<Rightarrow> nat \<Rightarrow> statement list \<Rightarrow> spawned list
     \<Rightarrow> spawned list \<Rightarrow> ShipBot \<Rightarrow> World \<Rightarrow> spawned list exec option" where
  "run_statements lv fuel sched c k [] started pending sb w = Some (Done started w)"
| "run_statements lv fuel sched c k (st # sts) started pending sb w =
     (case fst st sb w of
        Done b w1 \<Rightarrow>
          (if sched k then
             (case run_pending lv fuel c (if b then pending @ [snd st] else pending) sb w1 of
                None \<Rightarrow> None
              | Some (Done sb1 w2) \<Rightarrow>
                  run_statements lv fuel sched c (Suc k) sts
                    (if b then started @ [snd st] else started) [] sb1 w2
              | Some (Panic m w2) \<Rightarrow> Some (Panic m w2)
              | Some (Fatal m w2) \<Rightarrow> Some (Fatal m w2))
           else
             run_statements lv fuel sched c (Suc k) sts
               (if b then started @ [snd st] else started)
               (if b then pending @ [snd st] else pending) sb w1)
      | Panic m w1 \<Rightarrow> Some (Panic m w1)
      | Fatal m w1 \<Rightarrow> Some (Fatal m w1))"

definition command_loop ::
  "loopvar \<Rightarrow> nat \<Rightarrow> (nat \<Rightarrow> bool) \<Rightarrow> Client \<Rightarrow> ShipBot \<Rightarrow> World \<Rightarrow> spawned list exec option" where
  "command_loop lv fuel sched c sb w =
     (if Role (ship sb) = ''COMMAND'' then Some (Done [] (logger ''Reporting in.'' w))
      else if Role (ship sb) = ''EXCAVATOR'' then
        run_statements lv fuel sched c 0 (EXCAVATOR_statements c) [] [] sb
          (logger ''Reporting in.'' w)
      else Some (Done [] (logger ''Reporting in.'' w)))"

section \<open>The behaviour table of the specification\<close>

text \<open>
  The ordered predicate table for role \<open>EXCAVATOR\<close>, as the specification words it: five
  rows over the booleans cargo full, at a marketplace, docked, at an asteroid field; the
  first row whose predicate holds gives the action.
\<close>

datatype action = SELL | DOCK | NAVIGATE_TO_MARKETPLACE | EXTRACT | NAVIGATE_TO_FIELD

definition spec_table :: "((bool \<Rightarrow> bool \<Rightarrow> bool \<Rightarrow> bool \<Rightarrow> bool) \<times> action) list" where
  "spec_table =
     [(\<lambda>cargoFull atMarketplace docked atAsteroidField. cargoFull \<and> atMarketplace \<and> docked, SELL),
      (\<lambda>cargoFull atMarketplace docked atAsteroidField. cargoFull \<and> atMarketplace \<and> \<not> docked, DOCK),
      (\<lambda>cargoFull atMarketplace docked atAsteroidField. cargoFull \<and> \<not> atMarketplace,
         NAVIGATE_TO_MARKETPLACE),
      (\<lambda>cargoFull atMarketplace docked atAsteroidField. \<not> cargoFull \<and> atAsteroidField, EXTRACT),
      (\<lambda>cargoFull atMarketplace docked atAsteroidField. \<not> cargoFull \<and> \<not> atAsteroidField,
         NAVIGATE_TO_FIELD)]"

definition spec_selected :: "bool \<Rightarrow> bool \<Rightarrow> bool \<Rightarrow> bool \<Rightarrow> action list" where
  "spec_selected cargoFull atMarketplace docked atAsteroidField =
     map snd (filter (\<lambda>row. fst row cargoFull atMarketplace docked atAsteroidField) spec_table)"

fun goroutine_of :: "action \<Rightarrow> spawned" where
  "goroutine_of SELL = go_SellCargo"
| "goroutine_of DOCK = go_DockShip"
| "goroutine_of NAVIGATE_TO_MARKETPLACE = go_NavigateToNearestWaypointWithTrait ''MARKETPLACE''"
| "goroutine_of EXTRACT = go_ExtractResources"
| "goroutine_of NAVIGATE_TO_FIELD = go_NavigateToNearestWaypointOfType ''ASTEROID_FIELD''"

section \<open>Notions used by the properties\<close>

definition dist_to :: "Waypoint \<Rightarrow> Waypoint \<Rightarrow> real" where
  "dist_to cur w = Distance (coordinate_of cur) (coordinate_of w)"

text \<open>Index \<open>i\<close> is the first candidate of \<open>ws\<close> at minimal distance from \<open>cur\<close>.\<close>

definition first_nearest :: "Waypoint \<Rightarrow> Waypoint list \<Rightarrow> nat \<Rightarrow> bool" where
  "first_nearest cur ws i \<longleftrightarrow>
     i < length ws \<and>
     (\<forall>j < length ws. dist_to cur (ws ! i) \<le> dist_to cur (ws ! j)) \<and>
     (\<forall>j < i. dist_to cur (ws ! i) < dist_to cur (ws ! j))"

definition periter_inv :: "Waypoint \<Rightarrow> nearest_state \<Rightarrow> bool" where
  "periter_inv cur s \<longleftrightarrow>
     (case nearestWaypoint s of
        None \<Rightarrow> cells s = []
      | Some i \<Rightarrow> first_nearest cur (cells s) i \<and> nearestDistance s = dist_to cur (cells s ! i))"

text \<open>
  The \<open>n\<close>-th request, made as an extract call for ship \<open>shipSymbol\<close>, ends the extract loop: it
  fails, or the cargo it returns is full.
\<close>

definition stops :: "Client \<Rightarrow> string \<Rightarrow> nat \<Rightarrow> bool" where
  "stops c shipSymbol n =
     (case remote_ExtractResources c n shipSymbol of
        Inl err \<Rightarrow> True
      | Inr res \<Rightarrow> Units (ext_Cargo res) \<ge> Capacity (ext_Cargo res))"

text \<open>
  A run of extract calls, the first being request number \<open>n\<close>, respects the cooldown: each
  is issued at an instant that is not before the expiration in force, which is \<open>e\<close> for the
  first call and then the expiration returned by the call before.
\<close>

fun cooled :: "Client \<Rightarrow> string \<Rightarrow> int \<Rightarrow> nat \<Rightarrow> (int \<times> request) list \<Rightarrow> bool" where
  "cooled c shipSymbol e n [] = True"
| "cooled c shipSymbol e n ((t, r) # rs) =
     (e \<le> t \<and> r = ExtractResources_req shipSymbol \<and>
      (case remote_ExtractResources c n shipSymbol of
         Inl err \<Rightarrow> rs = []
       | Inr res \<Rightarrow> cooled c shipSymbol (Expiration (ext_Cooldown res)) (Suc n) rs))"

text \<open>
  The cargo a ship holds when the extract loop ends at its \<open>k\<close>-th call (request number
  \<open>n + k\<close>): the cargo of the last answer that was not a failure, or the cargo at entry
  when there is none.
\<close>

definition cargo_after :: "Client \<Rightarrow> string \<Rightarrow> nat \<Rightarrow> nat \<Rightarrow> ShipCargo \<Rightarrow> ShipCargo" where
  "cargo_after c shipSymbol n k cargo0 =
     (case remote_ExtractResources c (n + k) shipSymbol of
        Inr res \<Rightarrow> ext_Cargo res
      | Inl e \<Rightarrow>
          (if k = 0 then cargo0
           else (case remote_ExtractResources c (n + k - 1) shipSymbol of
                   Inr res \<Rightarrow> ext_Cargo res
                 | Inl e' \<Rightarrow> cargo0)))"

text \<open>Two ShipBots and worlds that differ in the priority list and the log at most.\<close>

definition same_state :: "ShipBot \<Rightarrow> World \<Rightarrow> ShipBot \<Rightarrow> World \<Rightarrow> bool" where
  "same_state sb1 w1 sb2 w2 \<longleftrightarrow>
     ship sb1 = ship sb2 \<and> agent sb1 = agent sb2 \<and> cooldown sb1 = cooldown sb2 \<and>
     now w1 = now w2 \<and> requests w1 = requests w2"

text \<open>What an action leaves behind, the log and the priority list set aside.\<close>

definition erase :: "ShipBot exec \<Rightarrow> ShipBot exec" where
  "erase r =
     (case r of
        Done sb w \<Rightarrow> Done (sb\<lparr>priorities := []\<rparr>) (w\<lparr>logs := []\<rparr>)
      | Panic m w \<Rightarrow> Panic m (w\<lparr>logs := []\<rparr>)
      | Fatal m w \<Rightarrow> Fatal m (w\<lparr>logs := []\<rparr>))"

text \<open>
  The ShipBots of a run: those that \<open>NewShipBot\<close> makes, those that \<open>main\<close> sends to
  the command loop, and those that an action started by the command loop sends back.
\<close>

inductive fleet_ShipBot :: "loopvar \<Rightarrow> Client \<Rightarrow> ShipBot \<Rightarrow> bool" for lv :: loopvar and c :: Client where
  from_NewShipBot: "fleet_ShipBot lv c (NewShipBot s a)"
| from_main: "main c a contracts w = Done sbs w' \<Longrightarrow> sb \<in> set sbs \<Longrightarrow> fleet_ShipBot lv c sb"
| from_SellCargo:
    "fleet_ShipBot lv c sb \<Longrightarrow> SellCargo fuel c sb w = Some (Done sb' w') \<Longrightarrow> fleet_ShipBot lv c sb'"
| from_DockShip:
    "fleet_ShipBot lv c sb \<Longrightarrow> DockShip c sb w = Done sb' w' \<Longrightarrow> fleet_ShipBot lv c sb'"
| from_ExtractResources:
    "fleet_ShipBot lv c sb \<Longrightarrow> ExtractResources fuel c sb w = Some (Done sb' w')
       \<Longrightarrow> fleet_ShipBot lv c sb'"
| from_NavigateToNearestWaypointOfType:
    "fleet_ShipBot lv c sb \<Longrightarrow> NavigateToNearestWaypointOfType lv c t sb w = Done sb' w'
       \<Longrightarrow> fleet_ShipBot lv c sb'"
| from_NavigateToNearestWaypointWithTrait:
    "fleet_ShipBot lv c sb \<Longrightarrow> NavigateToNearestWaypointWithTrait lv c t sb w = Done sb' w'
       \<Longrightarrow> fleet_ShipBot lv c sb'"

section \<open>Example inputs\<close>

definition waypoint_at :: "string \<Rightarrow> string \<Rightarrow> int \<Rightarrow> int \<Rightarrow> string list \<Rightarrow> Waypoint" where
  "waypoint_at name ty px py ts = \<lparr>wp_Symbol = name, wp_Type = ty, wp_X = px, wp_Y = py, Traits = ts\<rparr>"

definition example_ship :: "int \<Rightarrow> string \<Rightarrow> string \<Rightarrow> Ship" where
  "example_ship units waypointSymbol status =
     \<lparr>Symbol = ''MINER-1'', Role = ''EXCAVATOR'',
      Nav = \<lparr>SystemSymbol = ''X1'', WaypointSymbol = waypointSymbol,
             Route = \<lparr>Destination = waypointSymbol, Arrival = 0\<rparr>, Status = status\<rparr>,
      Cargo = \<lparr>Capacity = 40, Units = units,
               Inventory = (if units = 0 then []
                            else [\<lparr>item_Symbol = ''IRON_ORE'', item_Units = units\<rparr>])\<rparr>,
      Fuel = \<lparr>fuel_Current = 100, fuel_Capacity = 100\<rparr>\<rparr>"

definition example_bot :: "int \<Rightarrow> string \<Rightarrow> string \<Rightarrow> ShipBot" where
  "example_bot units waypointSymbol status =
     (NewShipBot (example_ship units waypointSymbol status) \<lparr>Credits = 0\<rparr>)
       \<lparr>cooldown := Some \<lparr>Expiration = 0\<rparr>\<rparr>"

definition example_world :: World where
  "example_world = \<lparr>now = 100, requests = [], logs = []\<rparr>"

text \<open>A remote service that cannot be reached: every request fails without a reply.\<close>

definition failing_Client :: Client where
  "failing_Client =
     \<lparr>latency = (\<lambda>n. 0),
      remote_SellCargo = (\<lambda>n s g u. Inl (Error ''request failed'')),
      remote_ExtractResources = (\<lambda>n s. Inl (Error ''request failed'')),
      remote_DockShip = (\<lambda>n s. NoReply (Error ''request failed'')),
      remote_NavigateShip = (\<lambda>n s t. Inl (Error ''request failed'')),
      remote_ListWaypoints = (\<lambda>n s. NoReply (Error ''request failed'')),
      remote_GetWaypoint = (\<lambda>n s t. Inl (Error ''request failed'')),
      remote_GetShipCooldown = (\<lambda>n s. NoReply (Error ''request failed'')),
      remote_GetMyShips = (\<lambda>n. Inl (Error ''request failed''))\<rparr>"

text \<open>A sale that fails at the first attempt and empties the hold at the second.\<close>

definition sell_fails_once :: Client where
  "sell_fails_once =
     failing_Client
       \<lparr>remote_SellCargo := (\<lambda>n s g u.
          if n = 0 then Inl (Error ''market unavailable'')
          else Inr \<lparr>sold_Agent = \<lparr>Credits = 1000\<rparr>,
                    sold_Cargo = \<lparr>Capacity = 40, Units = 0, Inventory = []\<rparr>\<rparr>)\<rparr>"

text \<open>A navigation that succeeds, with an arrival 500 after the request.\<close>

definition navigate_ok :: Client where
  "navigate_ok =
     failing_Client
       \<lparr>remote_NavigateShip := (\<lambda>n s t.
          Inr \<lparr>res_Fuel = \<lparr>fuel_Current = 90, fuel_Capacity = 100\<rparr>,
               res_Nav = \<lparr>SystemSymbol = ''X1'', WaypointSymbol = t,
                          Route = \<lparr>Destination = t, Arrival = 600\<rparr>,
                          Status = ''IN_TRANSIT''\<rparr>\<rparr>)\<rparr>"

text \<open>An extraction that adds 20 units at each call.\<close>

definition extract_fills :: Client where
  "extract_fills =
     failing_Client
       \<lparr>remote_ExtractResources := (\<lambda>n s.
          Inr \<lparr>ext_Cooldown = \<lparr>Expiration = 170 + 70 * int n\<rparr>,
               ext_Cargo = \<lparr>Capacity = 40, Units = 20 * (int n + 1),
                             Inventory = [\<lparr>item_Symbol = ''IRON_ORE'',
                                           item_Units = 20 * (int n + 1)\<rparr>]\<rparr>\<rparr>)\<rparr>"

text \<open>A service that knows the waypoint the ship is at.\<close>

definition waypoint_known :: "Waypoint \<Rightarrow> Client" where
  "waypoint_known wp = failing_Client\<lparr>remote_GetWaypoint := (\<lambda>n s t. Inr wp)\<rparr>"

text \<open>A fleet of one ship, in a system with the given waypoints.\<close>

definition one_ship_fleet :: "Waypoint list \<Rightarrow> Client" where
  "one_ship_fleet waypoints =
     navigate_ok
       \<lparr>remote_GetMyShips := (\<lambda>n. Inr [example_ship 0 ''X1-HQ'' ''IN_ORBIT'']),
        remote_ListWaypoints := (\<lambda>n s. Reply waypoints),
        remote_GetShipCooldown := (\<lambda>n s. Reply \<lparr>Expiration = 0\<rparr>)\<rparr>"

text \<open>A marketplace where the ship is, and a sale that empties the hold.\<close>

definition market_sells :: Client where
  "market_sells =
     failing_Client
       \<lparr>remote_GetWaypoint := (\<lambda>n s t.
          Inr (waypoint_at ''X1-MKT'' ''PLANET'' 10 0 [''MARKETPLACE''])),
        remote_SellCargo := (\<lambda>n s g u.
          Inr \<lparr>sold_Agent = \<lparr>Credits = 1000\<rparr>,
               sold_Cargo = \<lparr>Capacity = 40, Units = 0, Inventory = []\<rparr>\<rparr>)\<rparr>"

text \<open>
  A fleet of one ship at an asteroid field, with a shipyard at hand, whose cooldown
  request at startup gets no reply.
\<close>

definition cooldown_unknown :: Client where
  "cooldown_unknown =
     failing_Client
       \<lparr>remote_GetMyShips := (\<lambda>n. Inr [example_ship 0 ''X1-AST'' ''IN_ORBIT'']),
        remote_ListWaypoints := (\<lambda>n s.
          Reply [waypoint_at ''X1-AST'' ''ASTEROID_FIELD'' 0 7 [''SHIPYARD'']])\<rparr>"

section \<open>Nearest-waypoint search\<close>

lemma NearestWaypoint_empty:
  "NearestWaypoint lv cur [] = Inl (Error ''no nearest waypoint found'')"
  by (simp add: NearestWaypoint_def)

subsection \<open>One variable per iteration (Go 1.22 and later)\<close>

lemma first_nearest_keep:
  assumes "first_nearest cur cs i" "\<not> dist_to cur w < dist_to cur (cs ! i)"
  shows "first_nearest cur (cs @ [w]) i"
  using assms unfolding first_nearest_def
  by (auto simp: nth_append less_Suc_eq)

lemma first_nearest_new:
  assumes "first_nearest cur cs i" "dist_to cur w < dist_to cur (cs ! i)"
  shows "first_nearest cur (cs @ [w]) (length cs)"
  using assms unfolding first_nearest_def
  by (auto simp: nth_append less_Suc_eq intro: less_le_trans less_imp_le)

lemma periter_step:
  assumes "periter_inv cur s"
  shows "periter_inv cur
           (if nearestWaypoint s = None \<or> dist_to cur w < nearestDistance s
            then \<lparr>cells = cells s @ [w], nearestWaypoint = Some (length (cells s)),
                  nearestDistance = dist_to cur w\<rparr>
            else s\<lparr>cells := cells s @ [w]\<rparr>)"
proof (cases "nearestWaypoint s")
  case None
  then show ?thesis using assms by (simp add: periter_inv_def first_nearest_def)
next
  case (Some i)
  then have fn: "first_nearest cur (cells s) i"
    and nd: "nearestDistance s = dist_to cur (cells s ! i)"
    using assms by (simp_all add: periter_inv_def)
  have il: "i < length (cells s)" using fn by (simp add: first_nearest_def)
  show ?thesis
  proof (cases "dist_to cur w < nearestDistance s")
    case True
    then show ?thesis using Some first_nearest_new [OF fn] nd
      by (simp add: periter_inv_def)
  next
    case False
    then show ?thesis using Some first_nearest_keep [OF fn] nd il
      by (simp add: periter_inv_def nth_append)
  qed
qed

lemma periter_loop:
  "periter_inv cur s \<Longrightarrow>
   periter_inv cur (NearestWaypoint_loop PerIteration cur ws s) \<and>
   cells (NearestWaypoint_loop PerIteration cur ws s) = cells s @ ws"
proof (induction ws arbitrary: s)
  case Nil
  then show ?case by simp
next
  case (Cons w ws)
  define s' where "s' = (if nearestWaypoint s = None \<or> dist_to cur w < nearestDistance s
            then \<lparr>cells = cells s @ [w], nearestWaypoint = Some (length (cells s)),
                  nearestDistance = dist_to cur w\<rparr>
            else s\<lparr>cells := cells s @ [w]\<rparr>)"
  have step: "NearestWaypoint_loop PerIteration cur (w # ws) s =
              NearestWaypoint_loop PerIteration cur ws s'"
    by (simp add: range_assign_def dist_to_def Let_def s'_def)
  have inv': "periter_inv cur s'" unfolding s'_def by (rule periter_step [OF Cons.prems])
  have c': "cells s' = cells s @ [w]" by (simp add: s'_def)
  show ?case unfolding step using Cons.IH [OF inv'] c' by simp
qed

text \<open>
  With a variable per iteration the search returns the first candidate at minimal distance.
\<close>

lemma NearestWaypoint_PerIteration_first_nearest:
  assumes "waypoints \<noteq> []"
  shows "\<exists>i. first_nearest cur waypoints i \<and>
             NearestWaypoint PerIteration cur waypoints = Inr (waypoints ! i)"
proof -
  let ?init = "\<lparr>cells = [], nearestWaypoint = None, nearestDistance = 0\<rparr>"
  let ?s = "NearestWaypoint_loop PerIteration cur waypoints ?init"
  have "periter_inv cur ?init" by (simp add: periter_inv_def)
  from periter_loop [OF this, of waypoints]
  have both: "periter_inv cur ?s \<and> cells ?s = cells ?init @ waypoints" .
  have inv: "periter_inv cur ?s" using both by (rule conjunct1)
  have cs: "cells ?s = waypoints" using conjunct2 [OF both] by simp
  show ?thesis
  proof (cases "nearestWaypoint ?s")
    case None
    then show ?thesis using inv cs assms by (simp add: periter_inv_def)
  next
    case (Some i)
    then have "first_nearest cur waypoints i" using inv cs by (simp add: periter_inv_def)
    moreover have "NearestWaypoint PerIteration cur waypoints = Inr (waypoints ! i)"
      using Some cs by (simp add: NearestWaypoint_def Let_def)
    ultimately show ?thesis by blast
  qed
qed

subsection \<open>One variable per loop (before Go 1.22)\<close>

lemma perloop_loop:
  "length (cells s) \<le> 1 \<Longrightarrow> ws \<noteq> [] \<Longrightarrow>
   nearestWaypoint s = None \<or> (nearestWaypoint s = Some 0 \<and> cells s \<noteq> []) \<Longrightarrow>
   cells (NearestWaypoint_loop PerLoop cur ws s) = [last ws] \<and>
   nearestWaypoint (NearestWaypoint_loop PerLoop cur ws s) = Some 0"
proof (induction ws arbitrary: s)
  case Nil
  then show ?case by simp
next
  case (Cons w ws)
  obtain cs where cs: "range_assign PerLoop (cells s) w = (cs, 0)" "cs = [w]"
    using Cons.prems(1) by (cases "cells s") (auto simp: range_assign_def)
  define s' where "s' =
    (if nearestWaypoint s = None
        \<or> Distance (coordinate_of cur) (coordinate_of (cs ! 0)) < nearestDistance s
     then \<lparr>cells = cs, nearestWaypoint = Some 0,
           nearestDistance = Distance (coordinate_of cur) (coordinate_of (cs ! 0))\<rparr>
     else s\<lparr>cells := cs\<rparr>)"
  have step: "NearestWaypoint_loop PerLoop cur (w # ws) s = NearestWaypoint_loop PerLoop cur ws s'"
    using cs(1) by (simp add: Let_def s'_def)
  have c': "cells s' = [w]" using cs(2) by (simp add: s'_def)
  have n': "nearestWaypoint s' = Some 0" using Cons.prems(3) by (auto simp: s'_def)
  show ?case
  proof (cases "ws = []")
    case True
    then show ?thesis using step c' n' by simp
  next
    case False
    have "cells (NearestWaypoint_loop PerLoop cur ws s') = [last ws] \<and>
          nearestWaypoint (NearestWaypoint_loop PerLoop cur ws s') = Some 0"
      by (rule Cons.IH) (use c' n' False in auto)
    then show ?thesis using step False by simp
  qed
qed

text \<open>
  With one variable for the whole loop every stored address is that of the same variable,
  which holds the last candidate when the loop ends: the search returns the last candidate,
  whatever the distances.
\<close>

lemma NearestWaypoint_PerLoop_last:
  "waypoints \<noteq> [] \<Longrightarrow> NearestWaypoint PerLoop cur waypoints = Inr (last waypoints)"
  using perloop_loop [of "\<lparr>cells = [], nearestWaypoint = None, nearestDistance = 0\<rparr>" waypoints cur]
  by (simp add: NearestWaypoint_def Let_def)

text \<open>
  Claim C1: for a non-empty list of candidates \<open>NearestWaypoint\<close> returns the candidate at
  minimal Euclidean distance from the reference waypoint, the earliest one on a tie, and
  for the empty list it returns an error.  The error for the empty list is
  \<open>NearestWaypoint_empty\<close>.  The choice of the nearest candidate holds when each
  iteration has its own variable (\<open>NearestWaypoint_PerIteration_first_nearest\<close>) and
  fails when the loop has one variable: from the reference point \<open>(0, 0)\<close>, with the
  candidates at \<open>(1, 0)\<close> and \<open>(5, 0)\<close> in this order, the search returns the one at
  \<open>(5, 0)\<close>, at distance 5, and not the one at distance 1.  (All \<open>float64\<close> operations
  are exact on these coordinates.)
\<close>

theorem NearestWaypoint_returns_farther_candidate:
  "NearestWaypoint PerLoop (waypoint_at ''X1-HQ'' ''PLANET'' 0 0 [])
     [waypoint_at ''X1-NEAR'' ''ASTEROID_FIELD'' 1 0 [],
      waypoint_at ''X1-FAR'' ''ASTEROID_FIELD'' 5 0 []]
   = Inr (waypoint_at ''X1-FAR'' ''ASTEROID_FIELD'' 5 0 [])
   \<and> dist_to (waypoint_at ''X1-HQ'' ''PLANET'' 0 0 [])
        (waypoint_at ''X1-NEAR'' ''ASTEROID_FIELD'' 1 0 [])
     < dist_to (waypoint_at ''X1-HQ'' ''PLANET'' 0 0 [])
        (waypoint_at ''X1-FAR'' ''ASTEROID_FIELD'' 5 0 [])"
  by (simp add: NearestWaypoint_def range_assign_def Distance_def coordinate_of_def sub64_def
      waypoint_at_def dist_to_def)


section \<open>Selling\<close>

lemmas client_defs =
  Client_SellCargo_def Client_ExtractResources_def Client_DockShip_def Client_NavigateShip_def
  Client_ListWaypoints_def Client_GetWaypoint_def Client_GetShipCooldown_def
  Client_GetMyShips_def issue_def logger_def

lemmas example_defs =
  example_bot_def example_ship_def example_world_def NewShipBot_def failing_Client_def
  waypoint_at_def

text \<open>
  A failed sale leaves the inner loop with the ShipBot as it was; only the world has moved.
\<close>

lemma SellCargo_range_failing:
  "goods \<noteq> [] \<Longrightarrow> \<exists>w'. SellCargo_range failing_Client goods sb w = (sb, w')"
  by (cases goods) (simp_all add: client_defs failing_Client_def)

text \<open>
  While the sale keeps failing and the hold is not empty the action never ends, whatever
  the fuel: it never reports back.
\<close>

lemma SellCargo_failing_never_returns:
  "Units (Cargo (ship sb)) > 0 \<Longrightarrow> Inventory (Cargo (ship sb)) \<noteq> [] \<Longrightarrow>
   SellCargo fuel failing_Client sb w = None"
proof (induction fuel arbitrary: w)
  case 0
  then show ?case by simp
next
  case (Suc fuel)
  obtain w' where "SellCargo_range failing_Client (Inventory (Cargo (ship sb))) sb w = (sb, w')"
    using SellCargo_range_failing [OF Suc.prems(2)] by blast
  then show ?case using Suc by simp
qed

text \<open>
  Claim C2: the sell loop ends exactly when the cargo holds no units; every inventory line
  present at entry is attempted exactly once; after the first failed sale the remaining
  lines are dropped and the loop ends, so that a failed sale is never retried.  The code:
  the \<open>break\<close> after a failed sale leaves the \<open>range\<close> loop only, the outer \<open>for\<close>
  finds the hold still loaded and starts over on the same inventory.  With a ship holding
  one line of 40 units of iron ore and a market that rejects the first sale and accepts the
  second, the same line is sold twice over: two identical requests.  With a market that
  rejects every sale the action does not end for any amount of fuel.
\<close>

theorem SellCargo_retries_failed_line:
  "(\<exists>sb' w'. SellCargo 3 sell_fails_once (example_bot 40 ''X1-MKT'' ''DOCKED'') example_world
               = Some (Done sb' w') \<and>
             map snd (requests w') =
               [SellCargo_req ''MINER-1'' ''IRON_ORE'' 40, SellCargo_req ''MINER-1'' ''IRON_ORE'' 40])
   \<and> (\<forall>fuel. SellCargo fuel failing_Client (example_bot 40 ''X1-MKT'' ''DOCKED'') example_world
               = None)"
proof
  show "\<exists>sb' w'. SellCargo 3 sell_fails_once (example_bot 40 ''X1-MKT'' ''DOCKED'') example_world
               = Some (Done sb' w') \<and>
             map snd (requests w') =
               [SellCargo_req ''MINER-1'' ''IRON_ORE'' 40, SellCargo_req ''MINER-1'' ''IRON_ORE'' 40]"
    by (simp add: numeral_3_eq_3 client_defs example_defs sell_fails_once_def)
  show "\<forall>fuel. SellCargo fuel failing_Client (example_bot 40 ''X1-MKT'' ''DOCKED'') example_world
               = None"
    by (intro allI SellCargo_failing_never_returns) (simp_all add: example_bot_def example_ship_def NewShipBot_def)
qed

section \<open>Reporting back\<close>

lemma DockShip_failure_panics:
  "remote_DockShip c (length (requests w)) (Symbol (ship sb)) = NoReply e \<Longrightarrow>
   \<exists>w'. DockShip c sb w = Panic nil_dereference w'"
  by (simp add: DockShip_def client_defs)

lemma NavigateToNearestWaypointWithTrait_failure_panics:
  "remote_ListWaypoints c (length (requests w)) (SystemSymbol (Nav (ship sb))) = NoReply e \<Longrightarrow>
   \<exists>w'. NavigateToNearestWaypointWithTrait lv c trait sb w = Panic nil_dereference w'"
  by (simp add: NavigateToNearestWaypointWithTrait_def client_defs)

text \<open>The sibling action returns after the same failure, and reports.\<close>

lemma NavigateToNearestWaypointOfType_failure_reports:
  "remote_ListWaypoints c (length (requests w)) (SystemSymbol (Nav (ship sb))) = NoReply e \<Longrightarrow>
   \<exists>w'. NavigateToNearestWaypointOfType lv c waypointType sb w = Done sb w'"
  by (simp add: NavigateToNearestWaypointOfType_def client_defs)

text \<open>
  When the service answers with an error status, the three actions panic inside the
  client method, the sibling included.
\<close>

lemma DockShip_error_reply_panics:
  "remote_DockShip c (length (requests w)) (Symbol (ship sb)) = ErrorReply m \<Longrightarrow>
   \<exists>w'. DockShip c sb w = Panic nil_conversion w'"
  by (simp add: DockShip_def client_defs)

lemma NavigateToNearestWaypointWithTrait_error_reply_panics:
  "remote_ListWaypoints c (length (requests w)) (SystemSymbol (Nav (ship sb))) = ErrorReply m \<Longrightarrow>
   \<exists>w'. NavigateToNearestWaypointWithTrait lv c trait sb w = Panic pointer_conversion w'"
  by (simp add: NavigateToNearestWaypointWithTrait_def client_defs)

lemma NavigateToNearestWaypointOfType_error_reply_panics:
  "remote_ListWaypoints c (length (requests w)) (SystemSymbol (Nav (ship sb))) = ErrorReply m \<Longrightarrow>
   \<exists>w'. NavigateToNearestWaypointOfType lv c waypointType sb w = Panic pointer_conversion w'"
  by (simp add: NavigateToNearestWaypointOfType_def client_defs)

lemma ExtractResources_without_cooldown_panics:
  "cooldown sb = None \<Longrightarrow> \<not> IsFullOfCargo sb \<Longrightarrow>
   ExtractResources (Suc fuel) c sb w = Some (Panic nil_dereference w)"
  by (simp add: WaitUntilCooldown_def)

text \<open>
  Claim C3: every spawned action, when it completes, whether it succeeded or a remote call
  inside it failed, sends the ShipBot back on the channel; no failure ends an action
  without that report or with a crash.  The code: \<open>DockShip\<close> logs a failed dock call and
  goes on to dereference the nil result; \<open>NavigateToNearestWaypointWithTrait\<close> does the
  same with a failed waypoint listing, where \<open>NavigateToNearestWaypointOfType\<close> reports
  and returns.  Both panic before the send.  (The failure here is a request that got no
  reply.)
\<close>

theorem failed_call_panics_before_report:
  "(\<exists>w'. DockShip failing_Client (example_bot 40 ''X1-MKT'' ''IN_ORBIT'') example_world
           = Panic nil_dereference w')
   \<and> (\<forall>lv. \<exists>w'. NavigateToNearestWaypointWithTrait lv failing_Client ''MARKETPLACE''
                    (example_bot 40 ''X1-HQ'' ''IN_ORBIT'') example_world
                  = Panic nil_dereference w')
   \<and> (\<forall>lv. \<exists>w'. NavigateToNearestWaypointOfType lv failing_Client ''ASTEROID_FIELD''
                    (example_bot 0 ''X1-HQ'' ''IN_ORBIT'') example_world
                  = Done (example_bot 0 ''X1-HQ'' ''IN_ORBIT'') w')"
  by (simp add: DockShip_def NavigateToNearestWaypointWithTrait_def
      NavigateToNearestWaypointOfType_def client_defs example_defs)

section \<open>Travelling to the shipyards\<close>

text \<open>Already at the waypoint and not in transit: no request, no wait.\<close>

lemma NavigateShip_already_there:
  assumes "WaypointSymbol (Nav (ship sb)) = waypointSymbol"
    and "Arrival (Route (Nav (ship sb))) < now w"
  shows "\<exists>w'. NavigateShip c waypointSymbol sb w = (sb, w') \<and>
              requests w' = requests w \<and> now w' = now w"
  using assms by (simp add: NavigateShip_def logger_def)

text \<open>On the way to that very waypoint: no request, a wait until the arrival.\<close>

lemma NavigateShip_en_route:
  assumes "now w < Arrival (Route (Nav (ship sb)))"
    and "Destination (Route (Nav (ship sb))) = waypointSymbol"
  shows "\<exists>w'. NavigateShip c waypointSymbol sb w = (sb, w') \<and>
              requests w' = requests w \<and> now w' = Arrival (Route (Nav (ship sb)))"
  using assms by (simp add: NavigateShip_def WaitUntilArrival_def logger_def)

text \<open>
  Otherwise the request is issued once any transit is over, and the function returns as
  soon as the answer is there: the ShipBot is unchanged, the answer dropped.
\<close>

lemma NavigateShip_elsewhere:
  assumes "Arrival (Route (Nav (ship sb))) < now w"
    and "WaypointSymbol (Nav (ship sb)) \<noteq> waypointSymbol"
  shows "\<exists>w'. NavigateShip c waypointSymbol sb w = (sb, w') \<and>
              requests w' = requests w @ [(now w, NavigateShip_req (Symbol (ship sb)) waypointSymbol)] \<and>
              now w' = now w + int (latency c (length (requests w)))"
  using assms by (auto simp: NavigateShip_def client_defs split: sum.splits)

text \<open>
  Claim C7: for each shipyard in turn \<open>NavigateShip\<close> (1) makes no call and does not wait
  when the ship is at the waypoint and not in transit, (2) only waits when the ship is on
  its way to that waypoint, and (3) otherwise waits out a transit, makes the navigate call
  and then waits for the arrival it announces before the next waypoint is taken.  Parts (1)
  and (2) are the two lemmas above.  Part (3) fails: the answer of the navigate call is
  dropped, the ship's navigation state is not updated and nothing waits.  A ship at rest at
  \<open>X1-HQ\<close> at instant 100 is sent to two shipyards; the first call announces the arrival
  for instant 600; the second call is issued at instant 100 all the same, and the protocol
  ends at instant 100 with the ShipBot as it was.
\<close>

theorem NavigateShip_does_not_wait_for_arrival:
  "\<exists>w'. InitiateRequisitionProtocol_range navigate_ok
           [waypoint_at ''X1-YARD1'' ''ORBITAL_STATION'' 3 4 [''SHIPYARD''],
            waypoint_at ''X1-YARD2'' ''PLANET'' 30 40 [''SHIPYARD'']]
           (example_bot 0 ''X1-HQ'' ''IN_ORBIT'') example_world
         = (example_bot 0 ''X1-HQ'' ''IN_ORBIT'', w')
       \<and> requests w' = [(100, NavigateShip_req ''MINER-1'' ''X1-YARD1''),
                        (100, NavigateShip_req ''MINER-1'' ''X1-YARD2'')]
       \<and> now w' = 100"
  by (simp add: NavigateShip_def WaitUntilArrival_def client_defs example_defs navigate_ok_def)


section \<open>The decision of the command loop\<close>

lemma spec_selected_cases:
  "spec_selected f m d a =
     (if f then (if m then (if d then [SELL] else [DOCK]) else [NAVIGATE_TO_MARKETPLACE])
      else (if a then [EXTRACT] else [NAVIGATE_TO_FIELD]))"
  by (simp add: spec_selected_def spec_table_def)

lemma IsAtWaypointWithTrait_ok:
  assumes "\<forall>n. remote_GetWaypoint c n (SystemSymbol (Nav (ship sb))) (WaypointSymbol (Nav (ship sb))) = Inr waypoint"
  shows "IsAtWaypointWithTrait c sb t w =
           Done (t \<in> set (Traits waypoint))
             (issue c (GetWaypoint_req (SystemSymbol (Nav (ship sb))) (WaypointSymbol (Nav (ship sb)))) w)"
proof -
  have "(filter (\<lambda>u. u = t) (Traits waypoint) \<noteq> []) = (t \<in> set (Traits waypoint))"
    by (induction "Traits waypoint") (auto simp: filter_empty_conv)
  then show ?thesis using assms
    by (simp add: IsAtWaypointWithTrait_def Client_GetWaypoint_def)
qed

lemma IsAtWaypointOfType_ok:
  assumes "\<forall>n. remote_GetWaypoint c n (SystemSymbol (Nav (ship sb))) (WaypointSymbol (Nav (ship sb))) = Inr waypoint"
  shows "IsAtWaypointOfType c sb t w =
           Done (wp_Type waypoint = t)
             (issue c (GetWaypoint_req (SystemSymbol (Nav (ship sb))) (WaypointSymbol (Nav (ship sb)))) w)"
  using assms by (simp add: IsAtWaypointOfType_def Client_GetWaypoint_def)

lemma spec_selected_single: "\<exists>a. spec_selected f m d at_field = [a]"
  by (simp add: spec_selected_cases)

text \<open>
  A turn in which no goroutine runs before the turn is over starts exactly one goroutine,
  that of the one row of the table whose predicate holds, provided the waypoint lookups of
  the turn succeed with the same waypoint.
\<close>

lemma command_loop_undisturbed:
  assumes role: "Role (ship sb) = ''EXCAVATOR''"
    and gw: "\<forall>n. remote_GetWaypoint c n (SystemSymbol (Nav (ship sb))) (WaypointSymbol (Nav (ship sb))) = Inr waypoint"
    and quiet: "\<forall>k. \<not> sched k"
  shows "\<exists>w' a. command_loop lv fuel sched c sb w = Some (Done [goroutine_of a] w') \<and>
           spec_selected (IsFullOfCargo sb) (''MARKETPLACE'' \<in> set (Traits waypoint))
             (Status (Nav (ship sb)) = ''DOCKED'') (wp_Type waypoint = ''ASTEROID_FIELD'') = [a]"
  using role quiet
  by (simp add: command_loop_def EXCAVATOR_statements_def Let_def and_also_def and_pure_def
      not_exec_def IsAtWaypointWithTrait_ok [OF gw] IsAtWaypointOfType_ok [OF gw]
      spec_selected_cases)

text \<open>The four scenarios of the specification, in such a turn.\<close>

lemma command_loop_undisturbed_scenarios:
  "(\<exists>w'. command_loop lv fuel (\<lambda>k. False)
            (waypoint_known (waypoint_at ''X1-MKT'' ''PLANET'' 10 0 [''MARKETPLACE'']))
            (example_bot 40 ''X1-MKT'' ''DOCKED'') example_world = Some (Done [go_SellCargo] w'))
   \<and> (\<exists>w'. command_loop lv fuel (\<lambda>k. False)
            (waypoint_known (waypoint_at ''X1-MKT'' ''PLANET'' 10 0 [''MARKETPLACE'']))
            (example_bot 40 ''X1-MKT'' ''IN_ORBIT'') example_world = Some (Done [go_DockShip] w'))
   \<and> (\<exists>w'. command_loop lv fuel (\<lambda>k. False)
            (waypoint_known (waypoint_at ''X1-AST'' ''ASTEROID_FIELD'' 0 7 []))
            (example_bot 0 ''X1-AST'' ''IN_ORBIT'') example_world
          = Some (Done [go_ExtractResources] w'))
   \<and> (\<exists>w'. command_loop lv fuel (\<lambda>k. False)
            (waypoint_known (waypoint_at ''X1-HQ'' ''PLANET'' 0 0 [''SHIPYARD'']))
            (example_bot 0 ''X1-HQ'' ''IN_ORBIT'') example_world
          = Some (Done [go_NavigateToNearestWaypointOfType ''ASTEROID_FIELD''] w'))"
proof -
  have 1: "\<exists>w'. command_loop lv fuel (\<lambda>k. False)
            (waypoint_known (waypoint_at ''X1-MKT'' ''PLANET'' 10 0 [''MARKETPLACE'']))
            (example_bot 40 ''X1-MKT'' ''DOCKED'') example_world
          = Some (Done [go_SellCargo] w')"
    using command_loop_undisturbed
      [where sb = "example_bot 40 ''X1-MKT'' ''DOCKED''"
         and c = "waypoint_known (waypoint_at ''X1-MKT'' ''PLANET'' 10 0 [''MARKETPLACE''])"
         and waypoint = "waypoint_at ''X1-MKT'' ''PLANET'' 10 0 [''MARKETPLACE'']"
         and sched = "\<lambda>k. False" and lv = lv and fuel = fuel and w = example_world]
    by (auto simp: waypoint_known_def spec_selected_cases IsFullOfCargo_def example_defs)
  have 2: "\<exists>w'. command_loop lv fuel (\<lambda>k. False)
            (waypoint_known (waypoint_at ''X1-MKT'' ''PLANET'' 10 0 [''MARKETPLACE'']))
            (example_bot 40 ''X1-MKT'' ''IN_ORBIT'') example_world
          = Some (Done [go_DockShip] w')"
    using command_loop_undisturbed
      [where sb = "example_bot 40 ''X1-MKT'' ''IN_ORBIT''"
         and c = "waypoint_known (waypoint_at ''X1-MKT'' ''PLANET'' 10 0 [''MARKETPLACE''])"
         and waypoint = "waypoint_at ''X1-MKT'' ''PLANET'' 10 0 [''MARKETPLACE'']"
         and sched = "\<lambda>k. False" and lv = lv and fuel = fuel and w = example_world]
    by (auto simp: waypoint_known_def spec_selected_cases IsFullOfCargo_def example_defs)
  have 3: "\<exists>w'. command_loop lv fuel (\<lambda>k. False)
            (waypoint_known (waypoint_at ''X1-AST'' ''ASTEROID_FIELD'' 0 7 []))
            (example_bot 0 ''X1-AST'' ''IN_ORBIT'') example_world
          = Some (Done [go_ExtractResources] w')"
    using command_loop_undisturbed
      [where sb = "example_bot 0 ''X1-AST'' ''IN_ORBIT''"
         and c = "waypoint_known (waypoint_at ''X1-AST'' ''ASTEROID_FIELD'' 0 7 [])"
         and waypoint = "waypoint_at ''X1-AST'' ''ASTEROID_FIELD'' 0 7 []"
         and sched = "\<lambda>k. False" and lv = lv and fuel = fuel and w = example_world]
    by (auto simp: waypoint_known_def spec_selected_cases IsFullOfCargo_def example_defs)
  have 4: "\<exists>w'. command_loop lv fuel (\<lambda>k. False)
            (waypoint_known (waypoint_at ''X1-HQ'' ''PLANET'' 0 0 [''SHIPYARD'']))
            (example_bot 0 ''X1-HQ'' ''IN_ORBIT'') example_world
          = Some (Done [go_NavigateToNearestWaypointOfType ''ASTEROID_FIELD''] w')"
    using command_loop_undisturbed
      [where sb = "example_bot 0 ''X1-HQ'' ''IN_ORBIT''"
         and c = "waypoint_known (waypoint_at ''X1-HQ'' ''PLANET'' 0 0 [''SHIPYARD''])"
         and waypoint = "waypoint_at ''X1-HQ'' ''PLANET'' 0 0 [''SHIPYARD'']"
         and sched = "\<lambda>k. False" and lv = lv and fuel = fuel and w = example_world]
    by (auto simp: waypoint_known_def spec_selected_cases IsFullOfCargo_def example_defs)
  show ?thesis using 1 2 3 4 by blast
qed

text \<open>
  Claim C4: for a ship of role \<open>EXCAVATOR\<close> and every combination of the four booleans
  cargo full, at a marketplace, docked, at an asteroid field, the command loop selects
  exactly one of the five actions, the one that the ordered predicate table gives; the
  four scenarios hold.  That is what a turn does when nothing runs in between
  (\<open>command_loop_undisturbed\<close>).  But the five statements are independent \<open>if\<close>s, not
  one chain, and they read a ShipBot that the goroutine just started writes.  In the first
  scenario, a full ship docked at a marketplace, the first statement starts the sale; when
  the sale has emptied the hold before the fifth statement is reached (after the first,
  the second, the third or the fourth), the fifth condition finds a ship that is not full
  and not at an asteroid field, and the fifth statement starts the navigation to an
  asteroid field as well: two goroutines for one report.
\<close>

theorem command_loop_starts_two_goroutines:
  "(\<exists>w'. command_loop PerLoop 2 (\<lambda>k. k = 0) market_sells
            (example_bot 40 ''X1-MKT'' ''DOCKED'') example_world
          = Some (Done [go_SellCargo, go_NavigateToNearestWaypointOfType ''ASTEROID_FIELD''] w'))
   \<and> (\<exists>w'. command_loop PerLoop 2 (\<lambda>k. k = 1) market_sells
            (example_bot 40 ''X1-MKT'' ''DOCKED'') example_world
          = Some (Done [go_SellCargo, go_NavigateToNearestWaypointOfType ''ASTEROID_FIELD''] w'))
   \<and> (\<exists>w'. command_loop PerLoop 2 (\<lambda>k. k = 2) market_sells
            (example_bot 40 ''X1-MKT'' ''DOCKED'') example_world
          = Some (Done [go_SellCargo, go_NavigateToNearestWaypointOfType ''ASTEROID_FIELD''] w'))
   \<and> (\<exists>w'. command_loop PerLoop 2 (\<lambda>k. k = 3) market_sells
            (example_bot 40 ''X1-MKT'' ''DOCKED'') example_world
          = Some (Done [go_SellCargo, go_NavigateToNearestWaypointOfType ''ASTEROID_FIELD''] w'))"
  by (simp add: command_loop_def EXCAVATOR_statements_def run_goroutine_def numeral_2_eq_2
      and_also_def and_pure_def not_exec_def IsAtWaypointWithTrait_def IsAtWaypointOfType_def
      IsFullOfCargo_def market_sells_def client_defs example_defs)

section \<open>Extraction\<close>

lemma WaitUntilCooldown_Some:
  assumes "cooldown sb = Some cd"
  shows "\<exists>w1. WaitUntilCooldown sb w = Done () w1 \<and> requests w1 = requests w \<and>
              Expiration cd \<le> now w1"
  using assms by (simp add: WaitUntilCooldown_def logger_def Let_def)

lemma ExtractResources_step_fail:
  assumes "cooldown sb = Some cd" "\<not> IsFullOfCargo sb"
    and "remote_ExtractResources c (length (requests w)) (Symbol (ship sb)) = Inl e"
  shows "\<exists>t w'. Expiration cd \<le> t \<and>
           ExtractResources (Suc fuel) c sb w = Some (Done sb w') \<and>
           requests w' = requests w @ [(t, ExtractResources_req (Symbol (ship sb)))]"
proof -
  obtain w1 where w1: "WaitUntilCooldown sb w = Done () w1" "requests w1 = requests w"
    "Expiration cd \<le> now w1"
    using WaitUntilCooldown_Some [OF assms(1)] by blast
  show ?thesis using assms(2,3) w1
    by (simp add: Client_ExtractResources_def issue_def logger_def)
qed

lemma ExtractResources_step_ok:
  assumes "cooldown sb = Some cd" "\<not> IsFullOfCargo sb"
    and "remote_ExtractResources c (length (requests w)) (Symbol (ship sb)) = Inr res"
  shows "\<exists>t w1. Expiration cd \<le> t \<and>
           requests w1 = requests w @ [(t, ExtractResources_req (Symbol (ship sb)))] \<and>
           ExtractResources (Suc fuel) c sb w =
             ExtractResources fuel c
               (sb\<lparr>ship := (ship sb)\<lparr>Cargo := ext_Cargo res\<rparr>, cooldown := Some (ext_Cooldown res)\<rparr>) w1"
proof -
  obtain w1 where w1: "WaitUntilCooldown sb w = Done () w1" "requests w1 = requests w"
    "Expiration cd \<le> now w1"
    using WaitUntilCooldown_Some [OF assms(1)] by blast
  define w2 where "w2 = logger ''Cargo status updated.'' (logger ''Resources extracted.''
     (issue c (ExtractResources_req (Symbol (ship sb))) w1))"
  have a: "requests w2 = requests w @ [(now w1, ExtractResources_req (Symbol (ship sb)))]"
    using w1(2) by (simp add: w2_def issue_def logger_def)
  have b: "ExtractResources (Suc fuel) c sb w =
             ExtractResources fuel c
               (sb\<lparr>ship := (ship sb)\<lparr>Cargo := ext_Cargo res\<rparr>, cooldown := Some (ext_Cooldown res)\<rparr>) w2"
    using assms(2,3) w1(1,2) by (simp add: Client_ExtractResources_def w2_def)
  show ?thesis using w1(3) a b by blast
qed

lemma ExtractResources_full:
  "IsFullOfCargo sb \<Longrightarrow>
   ExtractResources (Suc fuel) c sb w = Some (Done sb (logger ''Cargo full. Reporting to agent...'' w))"
  by simp

declare ExtractResources.simps [simp del]

lemma cooled_single_Inl:
  "remote_ExtractResources c n s = Inl e \<Longrightarrow> ex \<le> t \<Longrightarrow> cooled c s ex n [(t, ExtractResources_req s)]"
  by simp

lemma cooled_single_Inr:
  "remote_ExtractResources c n s = Inr res \<Longrightarrow> ex \<le> t \<Longrightarrow> cooled c s ex n [(t, ExtractResources_req s)]"
  by simp

lemma cooled_Cons_Inr:
  "remote_ExtractResources c n s = Inr res \<Longrightarrow> ex \<le> t \<Longrightarrow>
   cooled c s (Expiration (ext_Cooldown res)) (Suc n) rs \<Longrightarrow>
   cooled c s ex n ((t, ExtractResources_req s) # rs)"
  by simp

lemma ExtractResources_run:
  assumes "cooldown sb = Some cd" "\<not> IsFullOfCargo sb"
    and "stops c (Symbol (ship sb)) (length (requests w) + k)"
    and "\<forall>j<k. \<not> stops c (Symbol (ship sb)) (length (requests w) + j)"
    and "Suc k < fuel"
  shows "\<exists>sb' w' rs. ExtractResources fuel c sb w = Some (Done sb' w') \<and>
           requests w' = requests w @ rs \<and> length rs = Suc k \<and>
           cooled c (Symbol (ship sb)) (Expiration cd) (length (requests w)) rs \<and>
           Cargo (ship sb') = cargo_after c (Symbol (ship sb)) (length (requests w)) k (Cargo (ship sb))"
  using assms
proof (induction k arbitrary: sb w cd fuel)
  case 0
  have "\<exists>f. fuel = Suc (Suc f)" using "0.prems"(5) by presburger
  then obtain f where f: "fuel = Suc (Suc f)" by blast
  let ?sym = "Symbol (ship sb)"
  let ?n = "length (requests w)"
  show ?case
  proof (cases "remote_ExtractResources c ?n ?sym")
    case (Inl e)
    from ExtractResources_step_fail [OF "0.prems"(1,2) Inl, of "Suc f"]
    obtain t w' where t: "Expiration cd \<le> t"
      and run: "ExtractResources fuel c sb w = Some (Done sb w')"
      and rq: "requests w' = requests w @ [(t, ExtractResources_req ?sym)]"
      unfolding f by blast
    have "cooled c ?sym (Expiration cd) ?n [(t, ExtractResources_req ?sym)]"
      by (rule cooled_single_Inl [OF Inl t])
    moreover have "Cargo (ship sb) = cargo_after c ?sym ?n 0 (Cargo (ship sb))"
      using Inl by (simp add: cargo_after_def)
    ultimately show ?thesis using run rq by fastforce
  next
    case (Inr res)
    define sb1 where "sb1 = sb\<lparr>ship := (ship sb)\<lparr>Cargo := ext_Cargo res\<rparr>, cooldown := Some (ext_Cooldown res)\<rparr>"
    from ExtractResources_step_ok [OF "0.prems"(1,2) Inr, of "Suc f"]
    obtain t w1 where t: "Expiration cd \<le> t"
      and r1: "requests w1 = requests w @ [(t, ExtractResources_req ?sym)]"
      and st: "ExtractResources fuel c sb w = ExtractResources (Suc f) c sb1 w1"
      unfolding f sb1_def by blast
    have full: "IsFullOfCargo sb1"
      using "0.prems"(3) Inr by (simp add: stops_def IsFullOfCargo_def sb1_def)
    have run: "ExtractResources fuel c sb w =
                 Some (Done sb1 (logger ''Cargo full. Reporting to agent...'' w1))"
      unfolding st by (rule ExtractResources_full [OF full])
    have rq: "requests (logger ''Cargo full. Reporting to agent...'' w1) =
                requests w @ [(t, ExtractResources_req ?sym)]"
      using r1 by (simp add: logger_def)
    have "cooled c ?sym (Expiration cd) ?n [(t, ExtractResources_req ?sym)]"
      by (rule cooled_single_Inr [OF Inr t])
    moreover have "Cargo (ship sb1) = cargo_after c ?sym ?n 0 (Cargo (ship sb))"
      using Inr by (simp add: cargo_after_def sb1_def)
    ultimately show ?thesis using run rq by fastforce
  qed
next
  case (Suc k)
  let ?sym = "Symbol (ship sb)"
  let ?n = "length (requests w)"
  obtain f where f: "fuel = Suc f" and kf: "Suc k < f" using Suc.prems(5) by (cases fuel) auto
  have ns: "\<not> stops c ?sym ?n" using Suc.prems(4) by (metis add.right_neutral zero_less_Suc)
  then obtain res where Inr: "remote_ExtractResources c ?n ?sym = Inr res"
    and nf: "\<not> Units (ext_Cargo res) \<ge> Capacity (ext_Cargo res)"
    by (cases "remote_ExtractResources c ?n ?sym") (auto simp: stops_def)
  define sb1 where "sb1 = sb\<lparr>ship := (ship sb)\<lparr>Cargo := ext_Cargo res\<rparr>, cooldown := Some (ext_Cooldown res)\<rparr>"
  from ExtractResources_step_ok [OF Suc.prems(1,2) Inr, of f]
  obtain t w1 where t: "Expiration cd \<le> t"
    and r1: "requests w1 = requests w @ [(t, ExtractResources_req ?sym)]"
    and st: "ExtractResources fuel c sb w = ExtractResources f c sb1 w1"
    unfolding f sb1_def by blast
  have sym1: "Symbol (ship sb1) = ?sym" by (simp add: sb1_def)
  have len1: "length (requests w1) = Suc ?n" using r1 by simp
  have p1: "cooldown sb1 = Some (ext_Cooldown res)" by (simp add: sb1_def)
  have p2: "\<not> IsFullOfCargo sb1" using nf by (simp add: IsFullOfCargo_def sb1_def)
  have p3: "stops c (Symbol (ship sb1)) (length (requests w1) + k)"
    using Suc.prems(3) by (simp add: sym1 len1)
  have p4: "\<forall>j<k. \<not> stops c (Symbol (ship sb1)) (length (requests w1) + j)"
  proof (intro allI impI)
    fix j assume "j < k"
    then have "Suc j < Suc k" by simp
    with Suc.prems(4) have "\<not> stops c ?sym (?n + Suc j)" by blast
    then show "\<not> stops c (Symbol (ship sb1)) (length (requests w1) + j)"
      by (simp add: sym1 len1)
  qed
  from Suc.IH [OF p1 p2 p3 p4 kf]
  obtain sb' w' rs where run: "ExtractResources f c sb1 w1 = Some (Done sb' w')"
    and rq: "requests w' = requests w1 @ rs" and ln: "length rs = Suc k"
    and cl: "cooled c (Symbol (ship sb1)) (Expiration (ext_Cooldown res)) (length (requests w1)) rs"
    and cg: "Cargo (ship sb') = cargo_after c (Symbol (ship sb1)) (length (requests w1)) k (Cargo (ship sb1))"
    by blast
  have a: "ExtractResources fuel c sb w = Some (Done sb' w')" using st run by simp
  have b: "requests w' = requests w @ ((t, ExtractResources_req ?sym) # rs)"
    using rq r1 by simp
  have c': "length ((t, ExtractResources_req ?sym) # rs) = Suc (Suc k)" using ln by simp
  have d: "cooled c ?sym (Expiration cd) ?n ((t, ExtractResources_req ?sym) # rs)"
    using cl unfolding sym1 len1 by (rule cooled_Cons_Inr [OF Inr t])
  have "\<not> stops c ?sym (?n + k)" using Suc.prems(4) by blast
  then have prev: "\<not> isl (remote_ExtractResources c (?n + k) ?sym)"
    by (auto simp: stops_def isl_def)
  have e: "Cargo (ship sb') = cargo_after c ?sym ?n (Suc k) (Cargo (ship sb))"
    using cg Inr prev unfolding sym1 len1
    by (auto simp: cargo_after_def sb1_def split: sum.splits)
  show ?case using a b c' d e by blast
qed


text \<open>
  Entered with a cooldown that is not nil, the loop ends and reports at the first extract
  call that fails or whose answer holds units \<open>\<ge>\<close> capacity, and at no call before it (at
  once, with no call, when units \<open>\<ge>\<close> capacity at entry); the cargo is then that of the
  last answer that was not a failure, so that the ship is full at the end exactly when the
  last call did not fail, and the units are within the capacity when they were at entry and
  in every answer; and every extract call is issued at an instant that is not before the
  cooldown expiration in force.
\<close>

lemma ExtractResources_until_full_or_failure:
  assumes "cooldown sb = Some cd"
    and "stops c (Symbol (ship sb)) (length (requests w) + k)"
    and "\<forall>j<k. \<not> stops c (Symbol (ship sb)) (length (requests w) + j)"
    and "Suc k < fuel"
  shows "if IsFullOfCargo sb
         then ExtractResources fuel c sb w
                = Some (Done sb (logger ''Cargo full. Reporting to agent...'' w))
         else (\<exists>sb' w' rs.
                 ExtractResources fuel c sb w = Some (Done sb' w') \<and>
                 requests w' = requests w @ rs \<and> length rs = Suc k \<and>
                 cooled c (Symbol (ship sb)) (Expiration cd) (length (requests w)) rs \<and>
                 Cargo (ship sb') =
                   cargo_after c (Symbol (ship sb)) (length (requests w)) k (Cargo (ship sb)) \<and>
                 (IsFullOfCargo sb' \<longleftrightarrow>
                    \<not> isl (remote_ExtractResources c (length (requests w) + k) (Symbol (ship sb)))) \<and>
                 (Units (Cargo (ship sb)) \<le> Capacity (Cargo (ship sb)) \<and>
                  (\<forall>j res. remote_ExtractResources c (length (requests w) + j) (Symbol (ship sb))
                              = Inr res
                            \<longrightarrow> Units (ext_Cargo res) \<le> Capacity (ext_Cargo res))
                  \<longrightarrow> Units (Cargo (ship sb')) \<le> Capacity (Cargo (ship sb'))))"
proof (cases "IsFullOfCargo sb")
  case True
  obtain f where "fuel = Suc f" using assms(4) by (cases fuel) auto
  then show ?thesis using True ExtractResources_full [OF True] by simp
next
  case False
  let ?sym = "Symbol (ship sb)"
  let ?n = "length (requests w)"
  from ExtractResources_run [OF assms(1) False assms(2,3,4)]
  obtain sb' w' rs where run: "ExtractResources fuel c sb w = Some (Done sb' w')"
    and rq: "requests w' = requests w @ rs" and ln: "length rs = Suc k"
    and cl: "cooled c ?sym (Expiration cd) ?n rs"
    and cg: "Cargo (ship sb') = cargo_after c ?sym ?n k (Cargo (ship sb))"
    by blast
  have "IsFullOfCargo sb' \<longleftrightarrow> \<not> isl (remote_ExtractResources c (?n + k) ?sym)"
  proof (cases "remote_ExtractResources c (?n + k) ?sym")
    case (Inr res)
    then have "Cargo (ship sb') = ext_Cargo res" using cg by (simp add: cargo_after_def)
    moreover have "Units (ext_Cargo res) \<ge> Capacity (ext_Cargo res)"
      using assms(2) Inr by (simp add: stops_def)
    ultimately show ?thesis using Inr by (simp add: IsFullOfCargo_def)
  next
    case (Inl e)
    show ?thesis
    proof (cases k)
      case 0
      then have "Cargo (ship sb') = Cargo (ship sb)" using cg Inl by (simp add: cargo_after_def)
      then show ?thesis using False Inl by (simp add: IsFullOfCargo_def)
    next
      case (Suc k')
      then have "\<not> stops c ?sym (?n + k')" using assms(3) by simp
      then obtain res where r: "remote_ExtractResources c (?n + k') ?sym = Inr res"
        and nf: "\<not> Units (ext_Cargo res) \<ge> Capacity (ext_Cargo res)"
        by (cases "remote_ExtractResources c (?n + k') ?sym") (auto simp: stops_def)
      have "Cargo (ship sb') = ext_Cargo res" using cg Inl r Suc by (simp add: cargo_after_def)
      then show ?thesis using nf Inl by (simp add: IsFullOfCargo_def)
    qed
  qed
  moreover have "Units (Cargo (ship sb')) \<le> Capacity (Cargo (ship sb'))"
    if ok: "Units (Cargo (ship sb)) \<le> Capacity (Cargo (ship sb))"
      and oks: "\<forall>j res. remote_ExtractResources c (?n + j) ?sym = Inr res
                  \<longrightarrow> Units (ext_Cargo res) \<le> Capacity (ext_Cargo res)"
  proof -
    have "Cargo (ship sb') = Cargo (ship sb) \<or>
          (\<exists>j res. remote_ExtractResources c (?n + j) ?sym = Inr res \<and> Cargo (ship sb') = ext_Cargo res)"
    proof (cases "remote_ExtractResources c (?n + k) ?sym")
      case (Inr res)
      then show ?thesis using cg by (auto simp: cargo_after_def)
    next
      case (Inl e)
      show ?thesis
      proof (cases k)
        case 0
        then show ?thesis using cg Inl by (simp add: cargo_after_def)
      next
        case (Suc k')
        show ?thesis
        proof (cases "remote_ExtractResources c (?n + k') ?sym")
          case (Inr res)
          then have "Cargo (ship sb') = ext_Cargo res" using cg Inl Suc by (simp add: cargo_after_def)
          then show ?thesis using Inr by blast
        next
          case Inl2: (Inl e')
          then show ?thesis using cg Inl Suc by (simp add: cargo_after_def)
        qed
      qed
    qed
    then show ?thesis using ok oks by auto
  qed
  ultimately show ?thesis using False run rq ln cl cg by auto
qed

lemma ExtractResources_example:
  "\<exists>sb' w'. ExtractResources 3 extract_fills (example_bot 0 ''X1-AST'' ''IN_ORBIT'') example_world
              = Some (Done sb' w') \<and>
            length (requests w') = 2 \<and>
            cooled extract_fills ''MINER-1'' 0 0 (requests w') \<and>
            Units (Cargo (ship sb')) = 40 \<and> Capacity (Cargo (ship sb')) = 40 \<and>
            IsFullOfCargo sb'"
proof -
  have a: "cooldown (example_bot 0 ''X1-AST'' ''IN_ORBIT'') = Some \<lparr>Expiration = 0\<rparr>"
    by (simp add: example_defs)
  have b: "stops extract_fills (Symbol (ship (example_bot 0 ''X1-AST'' ''IN_ORBIT'')))
             (length (requests example_world) + 1)"
    by (simp add: stops_def extract_fills_def example_defs)
  have c: "\<forall>j<1. \<not> stops extract_fills (Symbol (ship (example_bot 0 ''X1-AST'' ''IN_ORBIT'')))
             (length (requests example_world) + j)"
    by (simp add: stops_def extract_fills_def example_defs)
  have d: "Suc 1 < (3::nat)" by simp
  have e: "\<not> IsFullOfCargo (example_bot 0 ''X1-AST'' ''IN_ORBIT'')"
    by (simp add: IsFullOfCargo_def example_defs)
  from ExtractResources_until_full_or_failure [OF a b c d] e
  obtain sb' w' rs where
    "ExtractResources 3 extract_fills (example_bot 0 ''X1-AST'' ''IN_ORBIT'') example_world
       = Some (Done sb' w')"
    "requests w' = requests example_world @ rs" "length rs = Suc 1"
    "cooled extract_fills (Symbol (ship (example_bot 0 ''X1-AST'' ''IN_ORBIT'')))
       (Expiration \<lparr>Expiration = 0\<rparr>) (length (requests example_world)) rs"
    "Cargo (ship sb') =
       cargo_after extract_fills (Symbol (ship (example_bot 0 ''X1-AST'' ''IN_ORBIT'')))
         (length (requests example_world)) 1 (Cargo (ship (example_bot 0 ''X1-AST'' ''IN_ORBIT'')))"
    by (simp only: if_False) blast
  then show ?thesis
    by (auto simp: IsFullOfCargo_def cargo_after_def extract_fills_def example_defs)
qed

text \<open>
  With a cooldown that is not nil, and units within the capacity at entry and in every
  answer, the loop ends with the units equal to the capacity or at the first failed call,
  and the units never exceed the capacity.
\<close>

lemma ExtractResources_within_capacity:
  assumes "cooldown sb = Some cd"
    and "stops c (Symbol (ship sb)) (length (requests w) + k)"
    and "\<forall>j<k. \<not> stops c (Symbol (ship sb)) (length (requests w) + j)"
    and "Suc k < fuel"
    and "Units (Cargo (ship sb)) \<le> Capacity (Cargo (ship sb))"
    and "\<forall>j res. remote_ExtractResources c (length (requests w) + j) (Symbol (ship sb)) = Inr res
           \<longrightarrow> Units (ext_Cargo res) \<le> Capacity (ext_Cargo res)"
  shows "\<exists>sb' w'. ExtractResources fuel c sb w = Some (Done sb' w') \<and>
           Units (Cargo (ship sb')) \<le> Capacity (Cargo (ship sb')) \<and>
           (Units (Cargo (ship sb')) = Capacity (Cargo (ship sb')) \<or>
            isl (remote_ExtractResources c (length (requests w) + k) (Symbol (ship sb))))"
proof (cases "IsFullOfCargo sb")
  case True
  then show ?thesis
    using ExtractResources_until_full_or_failure [OF assms(1-4)] assms(5)
    by (auto simp: IsFullOfCargo_def)
next
  case False
  from ExtractResources_until_full_or_failure [OF assms(1-4)] False
  obtain sb' w' where run: "ExtractResources fuel c sb w = Some (Done sb' w')"
    and full: "IsFullOfCargo sb' \<longleftrightarrow>
                 \<not> isl (remote_ExtractResources c (length (requests w) + k) (Symbol (ship sb)))"
    and cap: "Units (Cargo (ship sb)) \<le> Capacity (Cargo (ship sb)) \<and>
              (\<forall>j res. remote_ExtractResources c (length (requests w) + j) (Symbol (ship sb)) = Inr res
                 \<longrightarrow> Units (ext_Cargo res) \<le> Capacity (ext_Cargo res))
              \<longrightarrow> Units (Cargo (ship sb')) \<le> Capacity (Cargo (ship sb'))"
    by (simp only: if_False) blast
  have le: "Units (Cargo (ship sb')) \<le> Capacity (Cargo (ship sb'))"
    using cap assms(5,6) by blast
  show ?thesis using run le full by (auto simp: IsFullOfCargo_def)
qed

lemma cooldown_unknown_fleet:
  "\<exists>w1. main cooldown_unknown \<lparr>Credits = 0\<rparr> [] example_world
         = Done [NewShipBot (example_ship 0 ''X1-AST'' ''IN_ORBIT'') \<lparr>Credits = 0\<rparr>] w1"
  by (simp add: main_def InitiateRequisitionProtocol_def FindWaypointsByTrait_def NavigateShip_def
      sent_def cooldown_unknown_def client_defs example_defs)

text \<open>
  Claim C6: the extract loop ends exactly when the cargo units equal the capacity or at the
  first failed extract call; the cargo units never exceed the capacity; before every
  extract call the ship has waited for the cooldown to expire.  For a ShipBot whose
  cooldown is not nil that is so (\<open>ExtractResources_within_capacity\<close> and the trace
  \<open>cooled\<close> of \<open>ExtractResources_until_full_or_failure\<close>).  But when the cooldown
  request of the startup fails, \<open>main\<close> logs the error, stores the nil cooldown and sends
  the ShipBot to the command loop all the same.  For that ShipBot, not full and at an
  asteroid field, the first step of the loop, \<open>WaitUntilCooldown\<close>, dereferences nil: the
  loop ends in a panic, with a cargo that is not full and without a failed extract call,
  none having been made.
\<close>

theorem ExtractResources_panics_on_nil_cooldown:
  "\<exists>sb w1. main cooldown_unknown \<lparr>Credits = 0\<rparr> [] example_world = Done [sb] w1 \<and>
           cooldown sb = None \<and> Units (Cargo (ship sb)) = 0 \<and> Capacity (Cargo (ship sb)) = 40 \<and>
           (\<forall>fuel c w. ExtractResources (Suc fuel) c sb w = Some (Panic nil_dereference w))"
proof -
  let ?sb = "NewShipBot (example_ship 0 ''X1-AST'' ''IN_ORBIT'') \<lparr>Credits = 0\<rparr>"
  have a: "cooldown ?sb = None" by (simp add: NewShipBot_def)
  have b: "\<not> IsFullOfCargo ?sb" by (simp add: IsFullOfCargo_def NewShipBot_def example_ship_def)
  have "\<forall>fuel c w. ExtractResources (Suc fuel) c ?sb w = Some (Panic nil_dereference w)"
    using ExtractResources_without_cooldown_panics [OF a b] by blast
  moreover have "Units (Cargo (ship ?sb)) = 0 \<and> Capacity (Cargo (ship ?sb)) = 40"
    by (simp add: NewShipBot_def example_ship_def)
  ultimately show ?thesis using cooldown_unknown_fleet a by blast
qed

section \<open>The throttle\<close>

lemma timeToWait_positive: "0 < r \<Longrightarrow> timeToWait r = 1000000000 div r"
  by (simp add: timeToWait_def)

lemma Wait_rate: "MaxRequestsPerSecond (Wait t clock lag) = MaxRequestsPerSecond t"
  by (simp add: Wait_def Let_def)

text \<open>A call is admitted no sooner than one pause after the admission before it.\<close>

lemma Wait_pause:
  "LastRequestTime t + timeToWait (MaxRequestsPerSecond t) \<le> LastRequestTime (Wait t clock lag)"
  by (simp add: Wait_def Let_def)

lemma Waits_pause:
  assumes "0 \<le> timeToWait (MaxRequestsPerSecond t)" and "a \<in> set (Waits t calls)"
  shows "LastRequestTime t + timeToWait (MaxRequestsPerSecond t) \<le> a"
  using assms
proof (induction calls arbitrary: t)
  case Nil
  then show ?case by simp
next
  case (Cons call calls)
  obtain delay lag where call: "call = (delay, lag)" by (cases call)
  define t1 where "t1 = Wait t (LastRequestTime t + int delay) lag"
  have r: "MaxRequestsPerSecond t1 = MaxRequestsPerSecond t" by (simp add: t1_def Wait_rate)
  have p: "LastRequestTime t + timeToWait (MaxRequestsPerSecond t) \<le> LastRequestTime t1"
    unfolding t1_def by (rule Wait_pause)
  from Cons.prems(2) have "a = LastRequestTime t1 \<or> a \<in> set (Waits t1 calls)"
    by (simp add: call t1_def)
  then show ?case
  proof
    assume "a = LastRequestTime t1"
    then show ?thesis using p by simp
  next
    assume "a \<in> set (Waits t1 calls)"
    with Cons.prems(1) have "LastRequestTime t1 + timeToWait (MaxRequestsPerSecond t1) \<le> a"
      by (intro Cons.IH) (simp_all add: r)
    then show ?thesis using p Cons.prems(1) r by simp
  qed
qed

text \<open>
  Claim C5: for a throttle configured with \<open>R\<close> requests per second, any two calls that
  \<open>Wait\<close> admits, from any number of concurrent callers, are separated by at least
  \<open>1/R\<close> seconds.  The pause is \<open>1/R\<close> seconds cut to a whole number of nanoseconds:
  for \<open>R = 3\<close> it is 333333333 ns, and two calls made back to back are admitted
  333333333 ns apart, which is less than a third of a second (three times the distance
  is less than \<open>10\<^sup>9\<close> ns).
\<close>

theorem Waits_three_per_second:
  "Waits (NewThrottle 3 0) [(0, 0), (0, 0)] = [333333333, 666666666]
   \<and> (666666666 - 333333333) * 3 < (1000000000 :: int)"
  by (simp add: NewThrottle_def Wait_def timeToWait_def Let_def)

text \<open>
  Claim C5 as amended: for a throttle configured with \<open>R > 0\<close> requests per second, any
  two calls that \<open>Wait\<close> admits, in whatever order the concurrent callers get the lock,
  are separated by at least \<open>\<lfloor>10\<^sup>9 / R\<rfloor>\<close> nanoseconds, the pause that the code
  computes: \<open>1/R\<close> seconds cut to a whole number of nanoseconds.
\<close>

theorem Waits_separation:
  assumes "0 < r" and "MaxRequestsPerSecond t = r"
    and "i < j" and "j < length (Waits t calls)"
  shows "1000000000 div r \<le> Waits t calls ! j - Waits t calls ! i"
  using assms
proof (induction calls arbitrary: t i j)
  case Nil
  then show ?case by simp
next
  case (Cons call calls)
  obtain delay lag where call: "call = (delay, lag)" by (cases call)
  define t1 where "t1 = Wait t (LastRequestTime t + int delay) lag"
  have r: "MaxRequestsPerSecond t1 = r" using Cons.prems(2) by (simp add: t1_def Wait_rate)
  have pause: "timeToWait (MaxRequestsPerSecond t1) = 1000000000 div r"
    using Cons.prems(1) r by (simp add: timeToWait_positive)
  have nonneg: "0 \<le> timeToWait (MaxRequestsPerSecond t1)"
    using Cons.prems(1) pause by (simp add: pos_imp_zdiv_nonneg_iff)
  have ws: "Waits t (call # calls) = LastRequestTime t1 # Waits t1 calls"
    by (simp add: call t1_def)
  obtain j' where j: "j = Suc j'" using Cons.prems(3) by (cases j) auto
  have j'len: "j' < length (Waits t1 calls)" using Cons.prems(4) by (simp add: ws j)
  show ?case
  proof (cases i)
    case 0
    have "Waits t1 calls ! j' \<in> set (Waits t1 calls)" using j'len by simp
    from Waits_pause [OF nonneg this]
    show ?thesis by (simp add: ws j 0 pause)
  next
    case (Suc i')
    then have "i' < j'" using Cons.prems(3) j by simp
    from Cons.IH [OF Cons.prems(1) r this j'len]
    show ?thesis by (simp add: ws j Suc)
  qed
qed

theorem Waits_two_per_second:
  "1000000000 div 2 \<le> Waits (NewThrottle 2 0) [(0, 0), (100, 0)] ! 1
                        - Waits (NewThrottle 2 0) [(0, 0), (100, 0)] ! 0"
  by (rule Waits_separation) (simp_all add: NewThrottle_def)

section \<open>The requisition protocol without a shipyard\<close>

lemma filter_has_trait_empty:
  "\<forall>wp \<in> set waypoints. \<not> has_trait t (Traits wp) \<Longrightarrow> filter (\<lambda>wp. has_trait t (Traits wp)) waypoints = []"
  by (simp add: filter_empty_conv)

lemma InitiateRequisitionProtocol_no_shipyard:
  assumes "remote_ListWaypoints c (length (requests w)) (SystemSymbol (Nav (ship sb))) = Reply waypoints"
    and "\<forall>wp \<in> set waypoints. \<not> has_trait ''SHIPYARD'' (Traits wp)"
  shows "\<exists>w'. InitiateRequisitionProtocol c sb w = Panic ''no shipyards found. Not yet handled.'' w'
              \<and> map snd (requests w') =
                  map snd (requests w) @ [ListWaypoints_req (SystemSymbol (Nav (ship sb)))]"
  using assms(1) filter_has_trait_empty [OF assms(2)]
  by (simp add: InitiateRequisitionProtocol_def FindWaypointsByTrait_def client_defs)

text \<open>
  Claim C8: when the requisition protocol finds no waypoint with the trait \<open>SHIPYARD\<close> in
  the system of the designated ship, the whole process ends in a failure that is not
  recovered: no retry, and the fleet is never released into the command loop.  \<open>main\<close>
  runs the protocol on the first ship of the fleet before the fan-out; the protocol
  panics, and the process dies with it: no ShipBot is sent, and the fleet listing and the
  waypoint listing are the only requests made.
\<close>

theorem no_shipyard_stops_the_process:
  assumes "remote_GetMyShips c (length (requests w)) = Inr (s # rest)"
    and "remote_ListWaypoints c (Suc (length (requests w))) (SystemSymbol (Nav s)) = Reply waypoints"
    and "\<forall>wp \<in> set waypoints. \<not> has_trait ''SHIPYARD'' (Traits wp)"
  shows "\<exists>w'. main c a contracts w = Panic ''no shipyards found. Not yet handled.'' w'
              \<and> map snd (requests w') =
                  map snd (requests w) @ [GetMyShips_req, ListWaypoints_req (SystemSymbol (Nav s))]"
proof -
  define w1 where "w1 = issue c GetMyShips_req (logger ''Waking fleet...'' w)"
  have len: "length (requests w1) = Suc (length (requests w))"
    by (simp add: w1_def issue_def logger_def)
  have "remote_ListWaypoints c (length (requests w1)) (SystemSymbol (Nav (ship (NewShipBot s a)))) = Reply waypoints"
    using assms(2) by (simp add: len NewShipBot_def)
  from InitiateRequisitionProtocol_no_shipyard [OF this assms(3)]
  obtain w' where p: "InitiateRequisitionProtocol c (NewShipBot s a) w1 = Panic ''no shipyards found. Not yet handled.'' w'"
    and r: "map snd (requests w') =
              map snd (requests w1) @ [ListWaypoints_req (SystemSymbol (Nav (ship (NewShipBot s a))))]"
    by blast
  have r1: "map snd (requests w1) = map snd (requests w) @ [GetMyShips_req]"
    by (simp add: w1_def issue_def logger_def)
  have m: "main c a contracts w = Panic ''no shipyards found. Not yet handled.'' w'"
    using p assms(1) by (simp add: main_def Client_GetMyShips_def w1_def logger_def)
  have "map snd (requests w') =
          map snd (requests w) @ [GetMyShips_req, ListWaypoints_req (SystemSymbol (Nav s))]"
    using r r1 by (simp add: NewShipBot_def)
  with m show ?thesis by blast
qed

theorem no_shipyard_example:
  "\<exists>w'. main (one_ship_fleet [waypoint_at ''X1-HQ'' ''PLANET'' 0 0 [''MARKETPLACE''],
                               waypoint_at ''X1-AST'' ''ASTEROID_FIELD'' 0 7 []])
            \<lparr>Credits = 0\<rparr> [] example_world
        = Panic ''no shipyards found. Not yet handled.'' w'
      \<and> map snd (requests w') = [GetMyShips_req, ListWaypoints_req ''X1'']"
  using no_shipyard_stops_the_process [of
      "one_ship_fleet [waypoint_at ''X1-HQ'' ''PLANET'' 0 0 [''MARKETPLACE''],
                               waypoint_at ''X1-AST'' ''ASTEROID_FIELD'' 0 7 []]"
      example_world "example_ship 0 ''X1-HQ'' ''IN_ORBIT''" "[]"
      "[waypoint_at ''X1-HQ'' ''PLANET'' 0 0 [''MARKETPLACE''],
                               waypoint_at ''X1-AST'' ''ASTEROID_FIELD'' 0 7 []]" "\<lparr>Credits = 0\<rparr>" "[]"]
  by (simp add: one_ship_fleet_def navigate_ok_def example_defs)

section \<open>The priority list\<close>

lemma same_state_erase:
  "same_state sb1 w1 sb2 w2 \<Longrightarrow> erase (Done sb1 w1) = erase (Done sb2 w2)"
  by (cases sb1; cases sb2; cases w1; cases w2) (simp add: same_state_def erase_def)

lemma same_state_logger:
  "same_state sb1 (logger m w1) sb2 (logger m' w2) = same_state sb1 w1 sb2 w2"
  by (simp add: same_state_def logger_def)

lemma SellCargo_range_same:
  "same_state sb1 w1 sb2 w2 \<Longrightarrow>
   same_state (fst (SellCargo_range c goods sb1 w1)) (snd (SellCargo_range c goods sb1 w1))
              (fst (SellCargo_range c goods sb2 w2)) (snd (SellCargo_range c goods sb2 w2))"
proof (induction goods arbitrary: sb1 w1 sb2 w2)
  case Nil
  then show ?case by simp
next
  case (Cons good goods)
  let ?n = "length (requests w1)"
  have eqs: "ship sb1 = ship sb2" "agent sb1 = agent sb2" "cooldown sb1 = cooldown sb2"
    "now w1 = now w2" "requests w1 = requests w2"
    using Cons.prems by (simp_all add: same_state_def)
  show ?case
  proof (cases "remote_SellCargo c ?n (Symbol (ship sb1)) (item_Symbol good) (item_Units good)")
    case (Inl e)
    then show ?thesis using eqs
      by (simp add: Client_SellCargo_def issue_def logger_def same_state_def)
  next
    case (Inr res)
    define u1 where "u1 = sb1\<lparr>ship := (ship sb1)\<lparr>Cargo := sold_Cargo res\<rparr>,
                   agent := (agent sb1)\<lparr>Credits := Credits (sold_Agent res)\<rparr>\<rparr>"
    define u2 where "u2 = sb2\<lparr>ship := (ship sb2)\<lparr>Cargo := sold_Cargo res\<rparr>,
                   agent := (agent sb2)\<lparr>Credits := Credits (sold_Agent res)\<rparr>\<rparr>"
    have step: "\<And>m1 m2. same_state u1
        (logger ''Agent credits updated.'' (logger ''Cargo status updated.'' (logger ''Cargo sold.''
           (issue c (SellCargo_req (Symbol (ship sb1)) (item_Symbol good) (item_Units good)) (logger m1 w1)))))
        u2
        (logger ''Agent credits updated.'' (logger ''Cargo status updated.'' (logger ''Cargo sold.''
           (issue c (SellCargo_req (Symbol (ship sb2)) (item_Symbol good) (item_Units good)) (logger m2 w2)))))"
      using eqs by (simp add: same_state_def u1_def u2_def issue_def logger_def)
    show ?thesis using Inr eqs Cons.IH [OF step]
      by (simp add: Client_SellCargo_def u1_def u2_def logger_def issue_def)
  qed
qed

lemma SellCargo_same:
  "same_state sb1 w1 sb2 w2 \<Longrightarrow>
   map_option erase (SellCargo fuel c sb1 w1) = map_option erase (SellCargo fuel c sb2 w2)"
proof (induction fuel arbitrary: sb1 w1 sb2 w2)
  case 0
  then show ?case by simp
next
  case (Suc fuel)
  have u: "Units (Cargo (ship sb1)) = Units (Cargo (ship sb2))"
    and i: "Inventory (Cargo (ship sb1)) = Inventory (Cargo (ship sb2))"
    using Suc.prems by (simp_all add: same_state_def)
  show ?case
  proof (cases "Units (Cargo (ship sb1)) > 0")
    case True
    from SellCargo_range_same [OF Suc.prems, of c "Inventory (Cargo (ship sb1))"]
    have "map_option erase (SellCargo fuel c
             (fst (SellCargo_range c (Inventory (Cargo (ship sb1))) sb1 w1))
             (snd (SellCargo_range c (Inventory (Cargo (ship sb1))) sb1 w1)))
        = map_option erase (SellCargo fuel c
             (fst (SellCargo_range c (Inventory (Cargo (ship sb1))) sb2 w2))
             (snd (SellCargo_range c (Inventory (Cargo (ship sb1))) sb2 w2)))"
      by (rule Suc.IH)
    then show ?thesis using True u i by (simp add: case_prod_beta)
  next
    case False
    then show ?thesis using u Suc.prems same_state_erase [of sb1 "logger ''Cargo empty. Reporting to agent...'' w1" sb2 "logger ''Cargo empty. Reporting to agent...'' w2"]
      by (simp add: same_state_logger)
  qed
qed

text \<open>
  Claim C9: in \<open>SellCargo\<close> a good whose symbol is in the priority list and a good whose
  symbol is not are treated alike: the same sell call with the same arguments, the same
  updates of the cargo and of the agent's credits; only the log differs.  Whatever the two
  priority lists, the runs of \<open>SellCargo\<close> agree on the ship, the agent, the cooldown,
  the clock and the requests issued, and on whether the action ends.
\<close>

theorem SellCargo_priorities_only_logged:
  "map_option erase (SellCargo fuel c (sb\<lparr>priorities := ps\<rparr>) w)
   = map_option erase (SellCargo fuel c (sb\<lparr>priorities := ps'\<rparr>) w)"
  by (rule SellCargo_same) (simp add: same_state_def)


lemma sent_Done:
  "sent sb r = Done sbs w \<Longrightarrow> \<exists>rest. r = Done rest w \<and> sbs = sb # rest"
  by (cases r) (auto simp: sent_def)

lemma main_range_priorities:
  "main_range c a ships w = Done sbs w' \<Longrightarrow> sb \<in> set sbs \<Longrightarrow> priorities sb = []"
proof (induction ships arbitrary: w sbs w')
  case Nil
  then show ?case by simp
next
  case (Cons s ships)
  from Cons.prems(1) obtain b rest w1 where
    r: "main_range c a ships w1 = Done rest w'" and sbs: "sbs = b # rest"
    and b: "priorities b = []"
    by (auto simp: NewShipBot_def split: exec.splits sum.splits dest!: sent_Done)
  show ?case
  proof (cases "sb = b")
    case True
    then show ?thesis using b by simp
  next
    case False
    then have "sb \<in> set rest" using Cons.prems(2) sbs by simp
    with r show ?thesis by (rule Cons.IH)
  qed
qed

lemma main_Done:
  "main c a contracts w = Done sbs w' \<Longrightarrow> \<exists>ships w3. main_range c a ships w3 = Done sbs w'"
  by (auto simp: main_def Let_def simp del: main_range.simps
      split: prod.splits sum.splits list.splits exec.splits)

lemma main_priorities:
  "main c a contracts w = Done sbs w' \<Longrightarrow> sb \<in> set sbs \<Longrightarrow> priorities sb = []"
  using main_Done main_range_priorities by blast

lemma main_ignores_contracts: "main c a contracts w = main c a contracts' w"
  by (simp add: main_def)

lemma SellCargo_range_priorities:
  "priorities (fst (SellCargo_range c goods sb w)) = priorities sb"
  by (induction goods arbitrary: sb w) (auto split: prod.splits sum.splits)

lemma SellCargo_priorities:
  "SellCargo fuel c sb w = Some (Done sb' w') \<Longrightarrow> priorities sb' = priorities sb"
proof (induction fuel arbitrary: sb w)
  case 0
  then show ?case by simp
next
  case (Suc fuel)
  show ?case
  proof (cases "Units (Cargo (ship sb)) > 0")
    case True
    obtain sb1 w1 where r: "SellCargo_range c (Inventory (Cargo (ship sb))) sb w = (sb1, w1)"
      by (cases "SellCargo_range c (Inventory (Cargo (ship sb))) sb w")
    then have "SellCargo fuel c sb1 w1 = Some (Done sb' w')" using Suc.prems True by simp
    then have "priorities sb' = priorities sb1" by (rule Suc.IH)
    moreover have "priorities sb1 = priorities sb"
      using SellCargo_range_priorities [of c "Inventory (Cargo (ship sb))" sb w] r by simp
    ultimately show ?thesis by simp
  next
    case False
    then show ?thesis using Suc.prems by auto
  qed
qed

lemma ExtractResources_priorities:
  "ExtractResources fuel c sb w = Some (Done sb' w') \<Longrightarrow> priorities sb' = priorities sb"
proof (induction fuel arbitrary: sb w)
  case 0
  then show ?case by (simp add: ExtractResources.simps)
next
  case (Suc fuel)
  then show ?case
    by (fastforce simp: ExtractResources.simps split: if_splits exec.splits prod.splits sum.splits)
qed

lemma DockShip_priorities:
  "DockShip c sb w = Done sb' w' \<Longrightarrow> priorities sb' = priorities sb"
  by (auto simp: DockShip_def split: exec.splits sum.splits)

lemma navigate_to_nearest_priorities:
  "navigate_to_nearest lv c msg wps fs sb w = Done sb' w' \<Longrightarrow> priorities sb' = priorities sb"
  by (auto simp: navigate_to_nearest_def Let_def split: list.splits prod.splits sum.splits)

lemma NavigateToNearestWaypointOfType_priorities:
  "NavigateToNearestWaypointOfType lv c t sb w = Done sb' w' \<Longrightarrow> priorities sb' = priorities sb"
  by (auto simp: NavigateToNearestWaypointOfType_def split: exec.splits sum.splits
      dest: navigate_to_nearest_priorities)

lemma NavigateToNearestWaypointWithTrait_priorities:
  "NavigateToNearestWaypointWithTrait lv c t sb w = Done sb' w' \<Longrightarrow> priorities sb' = priorities sb"
  by (auto simp: NavigateToNearestWaypointWithTrait_def split: exec.splits sum.splits
      dest: navigate_to_nearest_priorities)

lemma fleet_ShipBot_priorities: "fleet_ShipBot lv c sb \<Longrightarrow> priorities sb = []"
proof (induction rule: fleet_ShipBot.induct)
  case (from_NewShipBot s a)
  then show ?case by (simp add: NewShipBot_def)
next
  case (from_main a contracts w sbs w' sb)
  then show ?case by (rule main_priorities)
next
  case (from_SellCargo sb fuel w sb' w')
  then show ?case using SellCargo_priorities by fastforce
next
  case (from_DockShip sb w sb' w')
  then show ?case using DockShip_priorities by fastforce
next
  case (from_ExtractResources sb fuel w sb' w')
  then show ?case using ExtractResources_priorities by fastforce
next
  case (from_NavigateToNearestWaypointOfType sb t w sb' w')
  then show ?case using NavigateToNearestWaypointOfType_priorities by fastforce
next
  case (from_NavigateToNearestWaypointWithTrait sb t w sb' w')
  then show ?case using NavigateToNearestWaypointWithTrait_priorities by fastforce
qed

lemma SellCargo_range_no_priority_log:
  "priorities sb = [] \<Longrightarrow> ''Selling priority cargo...'' \<notin> set (logs w) \<Longrightarrow>
   ''Selling priority cargo...'' \<notin> set (logs (snd (SellCargo_range c goods sb w)))"
proof (induction goods arbitrary: sb w)
  case Nil
  then show ?case by simp
next
  case (Cons good goods)
  show ?case
  proof (cases "remote_SellCargo c (length (requests w)) (Symbol (ship sb)) (item_Symbol good) (item_Units good)")
    case (Inl e)
    then show ?thesis using Cons.prems by (simp add: Client_SellCargo_def issue_def logger_def)
  next
    case (Inr res)
    define sb1 where "sb1 = sb\<lparr>ship := (ship sb)\<lparr>Cargo := sold_Cargo res\<rparr>,
                   agent := (agent sb)\<lparr>Credits := Credits (sold_Agent res)\<rparr>\<rparr>"
    define w1 where "w1 = logger ''Agent credits updated.'' (logger ''Cargo status updated.'' (logger ''Cargo sold.''
           (issue c (SellCargo_req (Symbol (ship sb)) (item_Symbol good) (item_Units good)) (logger ''Selling non-priority cargo...'' w))))"
    have p: "priorities sb1 = []" using Cons.prems(1) by (simp add: sb1_def)
    have l: "''Selling priority cargo...'' \<notin> set (logs w1)"
      using Cons.prems(2) by (simp add: w1_def issue_def logger_def)
    have "SellCargo_range c (good # goods) sb w = SellCargo_range c goods sb1 w1"
      using Inr Cons.prems(1) by (simp add: Client_SellCargo_def sb1_def w1_def logger_def issue_def)
    then show ?thesis using Cons.IH [OF p l] by simp
  qed
qed

lemma SellCargo_no_priority_log:
  "priorities sb = [] \<Longrightarrow> ''Selling priority cargo...'' \<notin> set (logs w) \<Longrightarrow>
   SellCargo fuel c sb w = Some (Done sb' w') \<Longrightarrow> ''Selling priority cargo...'' \<notin> set (logs w')"
proof (induction fuel arbitrary: sb w)
  case 0
  then show ?case by simp
next
  case (Suc fuel)
  show ?case
  proof (cases "Units (Cargo (ship sb)) > 0")
    case True
    obtain sb1 w1 where r: "SellCargo_range c (Inventory (Cargo (ship sb))) sb w = (sb1, w1)"
      by (cases "SellCargo_range c (Inventory (Cargo (ship sb))) sb w")
    have p: "priorities sb1 = []"
      using SellCargo_range_priorities [of c "Inventory (Cargo (ship sb))" sb w] r Suc.prems(1) by simp
    have l: "''Selling priority cargo...'' \<notin> set (logs w1)"
      using SellCargo_range_no_priority_log [OF Suc.prems(1,2), of c "Inventory (Cargo (ship sb))"] r by simp
    have "SellCargo fuel c sb1 w1 = Some (Done sb' w')" using Suc.prems(3) True r by simp
    from Suc.IH [OF p l this] show ?thesis .
  next
    case False
    then show ?thesis using Suc.prems by (auto simp: logger_def)
  qed
qed

lemma fleet_example: "\<exists>w'. 
   main (one_ship_fleet [waypoint_at ''X1-HQ'' ''PLANET'' 0 0 [''SHIPYARD'']]) \<lparr>Credits = 0\<rparr> [] example_world
   = Done [example_bot 0 ''X1-HQ'' ''IN_ORBIT''] w'"
  by (simp add: main_def InitiateRequisitionProtocol_def FindWaypointsByTrait_def NavigateShip_def
      sent_def one_ship_fleet_def navigate_ok_def client_defs example_defs)

text \<open>
  Claim C10: the priority list of every ShipBot is empty, as \<open>NewShipBot\<close> leaves the
  field unset and nothing assigns it; so in every run of \<open>SellCargo\<close> the membership
  test is false for every good, the priority branch is never taken, and the list that
  \<open>DeterminePriorities\<close> computes at startup is consulted by no ship.  For a ShipBot of
  the fleet: its list is empty, the test fails for every good, a run of \<open>SellCargo\<close>
  never logs the sale of a priority good, and \<open>main\<close> does the same whatever the
  contracts.
\<close>

theorem fleet_ShipBot_has_no_priorities:
  assumes "fleet_ShipBot lv c sb"
  shows "priorities sb = [] \<and>
         (\<forall>good. \<not> Contains (priorities sb) (item_Symbol good)) \<and>
         (\<forall>fuel w sb' w'. SellCargo fuel c sb w = Some (Done sb' w') \<longrightarrow>
             ''Selling priority cargo...'' \<notin> set (logs w) \<longrightarrow>
             ''Selling priority cargo...'' \<notin> set (logs w')) \<and>
         (\<forall>a contracts contracts' w. main c a contracts w = main c a contracts' w)"
proof -
  have p: "priorities sb = []" by (rule fleet_ShipBot_priorities [OF assms])
  show ?thesis using p SellCargo_no_priority_log [OF p] main_ignores_contracts by auto
qed

theorem fleet_ShipBot_example:
  "fleet_ShipBot PerLoop (one_ship_fleet [waypoint_at ''X1-HQ'' ''PLANET'' 0 0 [''SHIPYARD'']])
     (example_bot 0 ''X1-HQ'' ''IN_ORBIT'')
   \<and> priorities (example_bot 0 ''X1-HQ'' ''IN_ORBIT'') = []
   \<and> \<not> Contains (priorities (example_bot 0 ''X1-HQ'' ''IN_ORBIT'')) ''IRON_ORE''"
proof -
  obtain w' where
    "main (one_ship_fleet [waypoint_at ''X1-HQ'' ''PLANET'' 0 0 [''SHIPYARD'']]) \<lparr>Credits = 0\<rparr> []
       example_world = Done [example_bot 0 ''X1-HQ'' ''IN_ORBIT''] w'"
    using fleet_example by blast
  then have f: "fleet_ShipBot PerLoop (one_ship_fleet [waypoint_at ''X1-HQ'' ''PLANET'' 0 0 [''SHIPYARD'']])
     (example_bot 0 ''X1-HQ'' ''IN_ORBIT'')"
    by (rule fleet_ShipBot.from_main) simp
  from fleet_ShipBot_has_no_priorities [OF f]
  have "priorities (example_bot 0 ''X1-HQ'' ''IN_ORBIT'') = []"
    and "\<forall>good. \<not> Contains (priorities (example_bot 0 ''X1-HQ'' ''IN_ORBIT'')) (item_Symbol good)"
    by blast+
  from this(1) this(2) [rule_format, of "\<lparr>item_Symbol = ''IRON_ORE'', item_Units = 1\<rparr>"] f
  show ?thesis by simp
qed

end
